theory Spec2Isabelle
  imports Complex_Main "HOL-Library.Sublist" "HOL-Library.Product_Lexorder"
begin

section \<open>Python values\<close>

text \<open>
  A Python \<open>str\<close> is modelled as the list of its code points, each one a \<open>char\<close>;
  the model therefore covers the strings whose code points lie below 256. \<open>len\<close> is
  \<open>length\<close>, the empty string is the only falsy string.
\<close>

datatype error = ValueError | KeyError | TypeError | AttributeError | IllTyped

abbreviation BS :: char where "BS \<equiv> CHR 0x5C"

abbreviation NL :: char where "NL \<equiv> CHR 0x0A"

definition py_isspace :: "char \<Rightarrow> bool" where
  "py_isspace c = ((of_char c :: nat) \<in> {9, 10, 11, 12, 13, 28, 29, 30, 31, 32, 133, 160})"

definition py_isdecimal :: "char \<Rightarrow> bool" where
  "py_isdecimal c = (c \<in> set ''0123456789'')"

definition py_isdigit :: "char \<Rightarrow> bool" where
  "py_isdigit c = (py_isdecimal c \<or> (of_char c :: nat) \<in> {178, 179, 185})"

definition py_isword :: "char \<Rightarrow> bool" where
  "py_isword c =
     (c \<in> set ''abcdefghijklmnopqrstuvwxyzABCDEFGHIJKLMNOPQRSTUVWXYZ0123456789_''
      \<or> (of_char c :: nat) \<in> {170, 178, 179, 181, 185, 186, 188, 189, 190}
      \<or> (192 \<le> (of_char c :: nat) \<and> (of_char c :: nat) \<noteq> 215 \<and> (of_char c :: nat) \<noteq> 247))"

definition lower_char :: "char \<Rightarrow> char" where
  "lower_char c =
     (let n = (of_char c :: nat)
      in if (65 \<le> n \<and> n \<le> 90) \<or> (192 \<le> n \<and> n \<le> 222 \<and> n \<noteq> 215)
         then char_of (n + 32) else c)"

definition lower :: "string \<Rightarrow> string" where
  "lower s = map lower_char s"

definition startswith :: "string \<Rightarrow> string \<Rightarrow> bool" where
  "startswith s p = (take (length p) s = p)"

fun join :: "string \<Rightarrow> string list \<Rightarrow> string" where
  "join sep [] = []"
| "join sep [x] = x"
| "join sep (x # y # ys) = x @ sep @ join sep (y # ys)"

definition strip :: "string \<Rightarrow> string" where
  "strip s = rev (dropWhile py_isspace (rev (dropWhile py_isspace s)))"

section \<open>Regular expressions\<close>

text \<open>
  The validators call \<open>re.match\<close> on patterns of the shape \<open>^R$\<close> and only ask whether
  there is a match. The patterns are kept as syntax trees; matching is by derivatives,
  and \<open>lang\<close> gives the set of strings a pattern stands for.
\<close>

datatype re =
    Never
  | Empty
  | Cls "char \<Rightarrow> bool"
  | Alt re re
  | Seq re re
  | Rep re

definition Lit :: "char \<Rightarrow> re" where
  "Lit c = Cls (\<lambda>x. x = c)"

definition Opt :: "re \<Rightarrow> re" where
  "Opt r = Alt r Empty"

definition Rep1 :: "re \<Rightarrow> re" where
  "Rep1 r = Seq r (Rep r)"

fun Str :: "string \<Rightarrow> re" where
  "Str [] = Empty"
| "Str (c # cs) = Seq (Lit c) (Str cs)"

fun Times :: "nat \<Rightarrow> re \<Rightarrow> re" where
  "Times 0 r = Empty"
| "Times (Suc n) r = Seq r (Times n r)"

fun nullable :: "re \<Rightarrow> bool" where
  "nullable Never = False"
| "nullable Empty = True"
| "nullable (Cls p) = False"
| "nullable (Alt a b) = (nullable a \<or> nullable b)"
| "nullable (Seq a b) = (nullable a \<and> nullable b)"
| "nullable (Rep a) = True"

fun deriv :: "char \<Rightarrow> re \<Rightarrow> re" where
  "deriv c Never = Never"
| "deriv c Empty = Never"
| "deriv c (Cls p) = (if p c then Empty else Never)"
| "deriv c (Alt a b) = Alt (deriv c a) (deriv c b)"
| "deriv c (Seq a b) =
     (if nullable a then Alt (Seq (deriv c a) b) (deriv c b) else Seq (deriv c a) b)"
| "deriv c (Rep a) = Seq (deriv c a) (Rep a)"

fun fullmatch :: "re \<Rightarrow> string \<Rightarrow> bool" where
  "fullmatch r [] = nullable r"
| "fullmatch r (c # cs) = fullmatch (deriv c r) cs"

definition re_match :: "re \<Rightarrow> string \<Rightarrow> bool" where
  \<comment> \<open>\<open>re.match\<close> of the pattern \<open>^R$\<close>: without the MULTILINE flag \<open>$\<close> holds at the end
      of the string and just before a newline that ends the string.\<close>
  "re_match r s = fullmatch (Seq r (Opt (Lit NL))) s"

inductive_set star :: "string set \<Rightarrow> string set" for A :: "string set" where
  star_nil: "[] \<in> star A"
| star_step: "u \<in> A \<Longrightarrow> v \<in> star A \<Longrightarrow> u @ v \<in> star A"

definition conc :: "string set \<Rightarrow> string set \<Rightarrow> string set" where
  "conc A B = {u @ v | u v. u \<in> A \<and> v \<in> B}"

fun lang :: "re \<Rightarrow> string set" where
  "lang Never = {}"
| "lang Empty = {[]}"
| "lang (Cls p) = {[c] | c. p c}"
| "lang (Alt a b) = lang a \<union> lang b"
| "lang (Seq a b) = conc (lang a) (lang b)"
| "lang (Rep a) = star (lang a)"

section \<open>Value objects (models/type\_validator.py)\<close>

datatype Email = Email_obj string
datatype PhoneNumber = PhoneNumber_obj string
datatype Website = Website_obj string
datatype LinkedIn = LinkedIn_obj string
datatype GitHub = GitHub_obj string
datatype Date = Date_obj string

fun Email_str :: "Email \<Rightarrow> string" where "Email_str (Email_obj v) = v"
fun PhoneNumber_str :: "PhoneNumber \<Rightarrow> string" where "PhoneNumber_str (PhoneNumber_obj v) = v"
fun Website_str :: "Website \<Rightarrow> string" where "Website_str (Website_obj v) = v"
fun LinkedIn_str :: "LinkedIn \<Rightarrow> string" where "LinkedIn_str (LinkedIn_obj v) = v"
fun GitHub_str :: "GitHub \<Rightarrow> string" where "GitHub_str (GitHub_obj v) = v"
fun Date_str :: "Date \<Rightarrow> string" where "Date_str (Date_obj v) = v"

definition not_at_space :: "char \<Rightarrow> bool" where
  "not_at_space c = (c \<noteq> CHR ''@'' \<and> \<not> py_isspace c)"

definition Email_regex :: re where
  \<comment> \<open>\<open>^[^@\s]+@[^@\s]+\.[^@\s]+$\<close>\<close>
  "Email_regex =
     Seq (Rep1 (Cls not_at_space))
       (Seq (Lit CHR ''@'')
         (Seq (Rep1 (Cls not_at_space))
           (Seq (Lit CHR ''.'') (Rep1 (Cls not_at_space)))))"

definition Email_init :: "string \<Rightarrow> error + Email" where
  "Email_init v = (if \<not> re_match Email_regex v then Inl ValueError else Inr (Email_obj v))"

definition PhoneNumber_regex :: re where
  \<comment> \<open>\<open>^\d{10}$\<close>\<close>
  "PhoneNumber_regex = Times 10 (Cls py_isdecimal)"

definition PhoneNumber_init :: "string \<Rightarrow> error + PhoneNumber" where
  "PhoneNumber_init v =
     (if \<not> re_match PhoneNumber_regex v then Inl ValueError else Inr (PhoneNumber_obj v))"

definition word_or_dash :: "char \<Rightarrow> bool" where
  "word_or_dash c = (py_isword c \<or> c = CHR ''-'')"

definition Website_url_regex :: re where
  \<comment> \<open>\<open>^(https?://)?(www\.)?[\w\-]+(\.[\w\-]+)+[/#?]?.*$\<close>\<close>
  "Website_url_regex =
     Seq (Opt (Seq (Str ''http'') (Seq (Opt (Lit CHR ''s'')) (Str ''://''))))
       (Seq (Opt (Str ''www.''))
         (Seq (Rep1 (Cls word_or_dash))
           (Seq (Rep1 (Seq (Lit CHR ''.'') (Rep1 (Cls word_or_dash))))
             (Seq (Opt (Cls (\<lambda>c. c \<in> set ''/#?'')))
               (Rep (Cls (\<lambda>c. c \<noteq> NL)))))))"

definition Website_init :: "string \<Rightarrow> error + Website" where
  "Website_init v =
     (if \<not> re_match Website_url_regex v then Inl ValueError else Inr (Website_obj v))"

definition LinkedIn_init :: "string \<Rightarrow> error + LinkedIn" where
  "LinkedIn_init v =
     (if \<not> startswith v ''https://www.linkedin.com/'' then Inl ValueError
      else case Website_init v of Inl e \<Rightarrow> Inl e | Inr w \<Rightarrow> Inr (LinkedIn_obj (Website_str w)))"

definition GitHub_init :: "string \<Rightarrow> error + GitHub" where
  "GitHub_init v =
     (if \<not> startswith v ''https://github.com/'' then Inl ValueError
      else case Website_init v of Inl e \<Rightarrow> Inl e | Inr w \<Rightarrow> Inr (GitHub_obj (Website_str w)))"

subsection \<open>Dates\<close>

text \<open>
  A \<open>datetime\<close> is the tuple of its fields (year, month, day, hour, minute, second,
  microsecond); naive datetimes compare field by field, which is the lexicographic
  order of the tuples.
\<close>

type_synonym datetime = "nat \<times> nat \<times> nat \<times> nat \<times> nat \<times> nat \<times> nat"

definition digit_val :: "char \<Rightarrow> nat" where
  "digit_val c = of_char c - 48"

definition int_of_digits :: "string \<Rightarrow> nat" where
  \<comment> \<open>\<open>int(s)\<close> on a group the pattern matched: decimal digits, after an optional blank\<close>
  "int_of_digits s = foldl (\<lambda>n c. 10 * n + digit_val c) 0 (filter py_isdecimal s)"

definition is_leap :: "nat \<Rightarrow> bool" where
  "is_leap y = (y mod 4 = 0 \<and> (y mod 100 \<noteq> 0 \<or> y mod 400 = 0))"

definition days_in_month :: "nat \<Rightarrow> nat \<Rightarrow> nat" where
  "days_in_month y m =
     (if m = 2 then (if is_leap y then 29 else 28)
      else if m \<in> {4, 6, 9, 11} then 30 else 31)"

definition group_d :: "string \<Rightarrow> (string \<times> string) list" where
  \<comment> \<open>\<open>(?P<d>3[0-1]|[1-2]\d|0[1-9]|[1-9]| [1-9])\<close>: the matches at the start of the
      string, in the order the alternatives are tried, each with the text left over\<close>
  "group_d s =
     (case s of a # b # r \<Rightarrow>
          (if a = CHR ''3'' \<and> b \<in> set ''01'' then [([a, b], r)] else [])
        @ (if a \<in> set ''12'' \<and> py_isdecimal b then [([a, b], r)] else [])
        @ (if a = CHR ''0'' \<and> b \<in> set ''123456789'' then [([a, b], r)] else [])
      | _ \<Rightarrow> [])
     @ (case s of a # r \<Rightarrow> (if a \<in> set ''123456789'' then [([a], r)] else []) | _ \<Rightarrow> [])
     @ (case s of a # b # r \<Rightarrow>
          (if a = CHR '' '' \<and> b \<in> set ''123456789'' then [([a, b], r)] else [])
      | _ \<Rightarrow> [])"

definition group_m :: "string \<Rightarrow> (string \<times> string) list" where
  \<comment> \<open>\<open>(?P<m>1[0-2]|0[1-9]|[1-9])\<close>\<close>
  "group_m s =
     (case s of a # b # r \<Rightarrow>
          (if a = CHR ''1'' \<and> b \<in> set ''012'' then [([a, b], r)] else [])
        @ (if a = CHR ''0'' \<and> b \<in> set ''123456789'' then [([a, b], r)] else [])
      | _ \<Rightarrow> [])
     @ (case s of a # r \<Rightarrow> (if a \<in> set ''123456789'' then [([a], r)] else []) | _ \<Rightarrow> [])"

definition group_Y :: "string \<Rightarrow> (string \<times> string) list" where
  \<comment> \<open>\<open>(?P<Y>\d\d\d\d)\<close>\<close>
  "group_Y s =
     (case s of a # b # c # d # r \<Rightarrow>
          (if py_isdecimal a \<and> py_isdecimal b \<and> py_isdecimal c \<and> py_isdecimal d
           then [([a, b, c, d], r)] else [])
      | _ \<Rightarrow> [])"

definition dash :: "string \<Rightarrow> string list" where
  "dash s = (case s of c # r \<Rightarrow> (if c = CHR ''-'' then [r] else []) | [] \<Rightarrow> [])"

definition format_regex_match :: "string \<Rightarrow> ((string \<times> string \<times> string) \<times> string) option" where
  \<comment> \<open>the first match of the pattern built from \<open>%d-%m-%Y\<close>, found by backtracking over
      the alternatives: the three groups and the unconverted rest\<close>
  "format_regex_match s =
     (case concat (map (\<lambda>(d, r1). concat (map (\<lambda>r2. concat (map (\<lambda>(m, r3).
             concat (map (\<lambda>r4. map (\<lambda>(y, r5). ((d, m, y), r5)) (group_Y r4)) (dash r3)))
             (group_m r2))) (dash r1))) (group_d s))
      of [] \<Rightarrow> None | x # _ \<Rightarrow> Some x)"

definition strptime :: "string \<Rightarrow> datetime option" where
  \<comment> \<open>\<open>datetime.strptime(value, "%d-%m-%Y")\<close>; \<open>None\<close> stands for its ValueError\<close>
  "strptime s =
     (case format_regex_match s of
        None \<Rightarrow> None
      | Some ((d, m, y), rest) \<Rightarrow>
          if rest \<noteq> [] then None
          else let year = int_of_digits y; month = int_of_digits m; day = int_of_digits d
               in if year < 1 \<or> day > days_in_month year month then None
                  else Some (year, month, day, 0, 0, 0, 0))"

definition Date_init :: "string \<Rightarrow> error + Date" where
  "Date_init v =
     (if lower v = ''present'' then Inr (Date_obj ''present'')
      else case strptime v of
             None \<Rightarrow> Inl ValueError
           | Some _ \<Rightarrow> Inr (Date_obj v))"

text \<open>
  \<open>datetime.today()\<close> reads the system clock. A clock is the sequence of its readings;
  the state threaded through the code is the number of readings taken so far.
\<close>

type_synonym clock = "nat \<Rightarrow> datetime"

definition today :: "clock \<Rightarrow> nat \<Rightarrow> datetime \<times> nat" where
  "today clk n = (clk n, Suc n)"

definition to_datetime :: "clock \<Rightarrow> Date \<Rightarrow> nat \<Rightarrow> (error + datetime) \<times> nat" where
  "to_datetime clk d n =
     (if Date_str d = ''present'' then (case today clk n of (t, n') \<Rightarrow> (Inr t, n'))
      else case strptime (Date_str d) of
             None \<Rightarrow> (Inl ValueError, n)
           | Some t \<Rightarrow> (Inr t, n))"


section \<open>Aggregates (models/models.py)\<close>

definition bind_err :: "error + 'a \<Rightarrow> ('a \<Rightarrow> error + 'b) \<Rightarrow> error + 'b" where
  "bind_err m f = (case m of Inl e \<Rightarrow> Inl e | Inr x \<Rightarrow> f x)"

fun traverse :: "('a \<Rightarrow> error + 'b) \<Rightarrow> 'a list \<Rightarrow> error + 'b list" where
  "traverse f [] = Inr []"
| "traverse f (x # xs) =
     bind_err (f x) (\<lambda>y. bind_err (traverse f xs) (\<lambda>ys. Inr (y # ys)))"

fun traverse_st ::
  "('a \<Rightarrow> nat \<Rightarrow> (error + 'b) \<times> nat) \<Rightarrow> 'a list \<Rightarrow> nat \<Rightarrow> (error + 'b list) \<times> nat" where
  "traverse_st f [] n = (Inr [], n)"
| "traverse_st f (x # xs) n =
     (case f x n of
        (Inl e, n1) \<Rightarrow> (Inl e, n1)
      | (Inr y, n1) \<Rightarrow>
          (case traverse_st f xs n1 of
             (Inl e, n2) \<Rightarrow> (Inl e, n2)
           | (Inr ys, n2) \<Rightarrow> (Inr (y # ys), n2)))"

record Header =
  Header_name :: string
  Header_email :: "Email option"
  Header_number :: "PhoneNumber option"
  Header_linkedin :: "LinkedIn option"
  Header_portfolio :: "Website option"
  Header_github :: "GitHub option"

definition Header_init ::
  "string \<Rightarrow> Email option \<Rightarrow> PhoneNumber option \<Rightarrow> LinkedIn option \<Rightarrow> Website option
     \<Rightarrow> GitHub option \<Rightarrow> error + Header" where
  "Header_init name email number linkedin portfolio github =
     Inr \<lparr>Header_name = name, Header_email = email, Header_number = number,
          Header_linkedin = linkedin, Header_portfolio = portfolio, Header_github = github\<rparr>"

text \<open>
  A Python \<open>set\<close> of strings is modelled by the list of its elements in the order the
  set object iterates them; the list has no duplicates, and two lists with the same
  elements stand for equal sets.
\<close>

record SkillType =
  SkillType_name :: string
  SkillType_skills :: "string list"

definition SkillType_init :: "string \<Rightarrow> string list \<Rightarrow> error + SkillType" where
  "SkillType_init name skills =
     (if skills = [] then Inl ValueError
      else Inr \<lparr>SkillType_name = name, SkillType_skills = skills\<rparr>)"

record SkillSection =
  SkillSection_skill_types :: "SkillType list"

definition SkillSection_init :: "SkillType list \<Rightarrow> error + SkillSection" where
  "SkillSection_init skill_types = Inr \<lparr>SkillSection_skill_types = skill_types\<rparr>"

record BulletPoint =
  BulletPoint_text :: string

definition BulletPoint_init :: "string \<Rightarrow> error + BulletPoint" where
  "BulletPoint_init text =
     (if text = [] then Inl ValueError
      else if length text > 255 then Inl ValueError
      else Inr \<lparr>BulletPoint_text = text\<rparr>)"

record Experience =
  Experience_position :: string
  Experience_company :: string
  Experience_description :: "BulletPoint list"
  Experience_start_date :: Date
  Experience_end_date :: Date

definition Experience_init ::
  "clock \<Rightarrow> string \<Rightarrow> string \<Rightarrow> BulletPoint list \<Rightarrow> Date \<Rightarrow> Date option \<Rightarrow> nat
     \<Rightarrow> (error + Experience) \<times> nat" where
  "Experience_init clk position company description start_date end_date n =
     (if position = [] \<or> company = [] then (Inl ValueError, n)
      else if description = [] then (Inl ValueError, n)
      else case (case end_date of None \<Rightarrow> Date_init ''present'' | Some d \<Rightarrow> Inr d) of
        Inl e \<Rightarrow> (Inl e, n)
      | Inr end_date \<Rightarrow>
          (case to_datetime clk start_date n of
             (Inl e, n1) \<Rightarrow> (Inl e, n1)
           | (Inr s1, n1) \<Rightarrow>
               (case to_datetime clk end_date n1 of
                  (Inl e, n2) \<Rightarrow> (Inl e, n2)
                | (Inr e1, n2) \<Rightarrow>
                    if s1 \<ge> e1 then (Inl ValueError, n2)
                    else (case to_datetime clk start_date n2 of
                            (Inl e, n3) \<Rightarrow> (Inl e, n3)
                          | (Inr s2, n3) \<Rightarrow>
                              (case today clk n3 of
                                 (t, n4) \<Rightarrow>
                                   if s2 > t then (Inl ValueError, n4)
                                   else (Inr \<lparr>Experience_position = position,
                                               Experience_company = company,
                                               Experience_description = description,
                                               Experience_start_date = start_date,
                                               Experience_end_date = end_date\<rparr>, n4))))))"

record ExperienceSection =
  ExperienceSection_experiences :: "Experience list"

definition ExperienceSection_init :: "Experience list \<Rightarrow> error + ExperienceSection" where
  "ExperienceSection_init experiences = Inr \<lparr>ExperienceSection_experiences = experiences\<rparr>"

record Project =
  Project_name :: string
  Project_skills :: "string list"
  Project_description :: "BulletPoint list"
  Project_link :: "Website option"

definition Project_init ::
  "string \<Rightarrow> string list \<Rightarrow> BulletPoint list \<Rightarrow> Website option \<Rightarrow> error + Project" where
  "Project_init name skills description link =
     (if name = [] \<or> skills = [] then Inl ValueError
      else if description = [] then Inl ValueError
      else Inr \<lparr>Project_name = name, Project_skills = skills,
                Project_description = description, Project_link = link\<rparr>)"

record ProjectSection =
  ProjectSection_projects :: "Project list"

definition ProjectSection_init :: "Project list \<Rightarrow> error + ProjectSection" where
  "ProjectSection_init projects = Inr \<lparr>ProjectSection_projects = projects\<rparr>"

text \<open>
  A Python \<open>float\<close> is modelled as a real number; the constructor only compares the GPA
  with 0.0 and 4.0.
\<close>

record Education =
  Education_school :: string
  Education_degree :: string
  Education_start_date :: Date
  Education_awards :: "string list"
  Education_gpa :: "real option"

definition Education_init ::
  "clock \<Rightarrow> string \<Rightarrow> string \<Rightarrow> Date \<Rightarrow> string list option \<Rightarrow> real option \<Rightarrow> nat
     \<Rightarrow> (error + Education) \<times> nat" where
  "Education_init clk school degree start_date awards gpa n =
     (if degree = [] \<or> school = [] then (Inl ValueError, n)
      else case to_datetime clk start_date n of
        (Inl e, n1) \<Rightarrow> (Inl e, n1)
      | (Inr s, n1) \<Rightarrow>
          (case today clk n1 of
             (t, n2) \<Rightarrow>
               if s \<ge> t then (Inl ValueError, n2)
               else if (case gpa of None \<Rightarrow> False | Some g \<Rightarrow> g < 0.0 \<or> g > 4.0)
                 then (Inl ValueError, n2)
               else (Inr \<lparr>Education_school = school, Education_degree = degree,
                           Education_start_date = start_date,
                           Education_awards = (case awards of None \<Rightarrow> [] | Some a \<Rightarrow> a),
                           Education_gpa = gpa\<rparr>, n2)))"

record EducationSection =
  EducationSection_educations :: "Education list"

definition EducationSection_init :: "Education list \<Rightarrow> error + EducationSection" where
  "EducationSection_init educations = Inr \<lparr>EducationSection_educations = educations\<rparr>"

record Resume =
  Resume_header :: Header
  Resume_skills :: "SkillSection option"
  Resume_experience :: "ExperienceSection option"
  Resume_projects :: "ProjectSection option"
  Resume_education :: "EducationSection option"

definition Resume_init ::
  "Header \<Rightarrow> SkillSection option \<Rightarrow> ExperienceSection option \<Rightarrow> ProjectSection option
     \<Rightarrow> EducationSection option \<Rightarrow> Resume" where
  "Resume_init header skills experience projects education =
     \<lparr>Resume_header = header, Resume_skills = skills, Resume_experience = experience,
      Resume_projects = projects, Resume_education = education\<rparr>"

subsection \<open>The legacy module (models.py at the top level)\<close>






section \<open>Structured records (to\_dict and from\_dict)\<close>

text \<open>
  The plain record is what \<open>json.load\<close> returns: null, strings, numbers, lists and
  dicts with string keys (an association list, first entry wins). Where the source
  would carry on with a value that is not of the annotated type, the model stops
  with \<open>IllTyped\<close>; every claim below is about records whose values are well typed.
\<close>

datatype json =
    JNull
  | JStr string
  | JNum real
  | JList "json list"
  | JDict "(string \<times> json) list"

fun truthy :: "json \<Rightarrow> bool" where
  "truthy JNull = False"
| "truthy (JStr s) = (s \<noteq> [])"
| "truthy (JNum x) = (x \<noteq> 0)"
| "truthy (JList xs) = (xs \<noteq> [])"
| "truthy (JDict kvs) = (kvs \<noteq> [])"

fun dict_get :: "json \<Rightarrow> string \<Rightarrow> json \<Rightarrow> error + json" where
  \<comment> \<open>\<open>d.get(k, default)\<close>\<close>
  "dict_get (JDict kvs) k dflt = Inr (case map_of kvs k of None \<Rightarrow> dflt | Some v \<Rightarrow> v)"
| "dict_get _ k dflt = Inl AttributeError"

fun dict_item :: "json \<Rightarrow> string \<Rightarrow> error + json" where
  \<comment> \<open>\<open>d[k]\<close> with a string key\<close>
  "dict_item (JDict kvs) k = (case map_of kvs k of None \<Rightarrow> Inl KeyError | Some v \<Rightarrow> Inr v)"
| "dict_item _ k = Inl TypeError"

fun iter_of :: "json \<Rightarrow> error + json list" where
  \<comment> \<open>the values a \<open>for\<close> loop over the value visits\<close>
  "iter_of (JList xs) = Inr xs"
| "iter_of (JStr s) = Inr (map (\<lambda>c. JStr [c]) s)"
| "iter_of (JDict kvs) = Inr (map (\<lambda>kv. JStr (fst kv)) kvs)"
| "iter_of _ = Inl TypeError"

fun str_of :: "json \<Rightarrow> error + string" where
  "str_of (JStr s) = Inr s"
| "str_of _ = Inl IllTyped"

fun str_list_of :: "json \<Rightarrow> error + string list" where
  "str_list_of (JList xs) = traverse str_of xs"
| "str_list_of _ = Inl IllTyped"

definition opt_field :: "json \<Rightarrow> string \<Rightarrow> (json \<Rightarrow> error + 'a) \<Rightarrow> error + 'a option" where
  \<comment> \<open>\<open>C(d[k]) if d.get(k) else None\<close>\<close>
  "opt_field d k mk =
     bind_err (dict_get d k JNull) (\<lambda>v.
       if truthy v
       then bind_err (dict_item d k) (\<lambda>x. bind_err (mk x) (\<lambda>y. Inr (Some y)))
       else Inr None)"

fun Email_of :: "json \<Rightarrow> error + Email" where
  "Email_of (JStr s) = Email_init s"
| "Email_of _ = Inl TypeError"

fun PhoneNumber_of :: "json \<Rightarrow> error + PhoneNumber" where
  "PhoneNumber_of (JStr s) = PhoneNumber_init s"
| "PhoneNumber_of _ = Inl TypeError"

fun Website_of :: "json \<Rightarrow> error + Website" where
  "Website_of (JStr s) = Website_init s"
| "Website_of _ = Inl TypeError"

fun LinkedIn_of :: "json \<Rightarrow> error + LinkedIn" where
  "LinkedIn_of (JStr s) = LinkedIn_init s"
| "LinkedIn_of _ = Inl AttributeError"

fun GitHub_of :: "json \<Rightarrow> error + GitHub" where
  "GitHub_of (JStr s) = GitHub_init s"
| "GitHub_of _ = Inl AttributeError"

fun Date_of :: "json \<Rightarrow> error + Date" where
  "Date_of (JStr s) = Date_init s"
| "Date_of _ = Inl AttributeError"

fun BulletPoint_of :: "json \<Rightarrow> error + BulletPoint" where
  "BulletPoint_of (JStr s) = BulletPoint_init s"
| "BulletPoint_of j = (if truthy j then Inl IllTyped else Inl ValueError)"

subsection \<open>to\_dict\<close>

definition opt_str :: "('a \<Rightarrow> string) \<Rightarrow> 'a option \<Rightarrow> json" where
  \<comment> \<open>\<open>str(x) if x else None\<close>; a value object is always truthy\<close>
  "opt_str f x = (case x of None \<Rightarrow> JNull | Some v \<Rightarrow> JStr (f v))"

definition Header_to_dict :: "Header \<Rightarrow> json" where
  "Header_to_dict self =
     JDict [(''name'', JStr (Header_name self)),
            (''email'', opt_str Email_str (Header_email self)),
            (''number'', opt_str PhoneNumber_str (Header_number self)),
            (''linkedin'', opt_str LinkedIn_str (Header_linkedin self)),
            (''portfolio'', opt_str Website_str (Header_portfolio self)),
            (''github'', opt_str GitHub_str (Header_github self))]"

definition SkillSection_to_dict :: "SkillSection \<Rightarrow> json" where
  "SkillSection_to_dict self =
     JDict [(''skill_types'',
             JList (map (\<lambda>st. JDict [(''name'', JStr (SkillType_name st)),
                                     (''skills'', JList (map JStr (SkillType_skills st)))])
                        (SkillSection_skill_types self)))]"

definition BulletPoint_to_dict :: "BulletPoint \<Rightarrow> json" where
  "BulletPoint_to_dict self = JDict [(''text'', JStr (BulletPoint_text self))]"

definition Experience_to_dict :: "Experience \<Rightarrow> json" where
  "Experience_to_dict self =
     JDict [(''position'', JStr (Experience_position self)),
            (''company'', JStr (Experience_company self)),
            (''description'', JList (map BulletPoint_to_dict (Experience_description self))),
            (''start_date'', JStr (Date_str (Experience_start_date self))),
            (''end_date'', JStr (Date_str (Experience_end_date self)))]"

definition ExperienceSection_to_dict :: "ExperienceSection \<Rightarrow> json" where
  "ExperienceSection_to_dict self =
     JDict [(''experiences'', JList (map Experience_to_dict (ExperienceSection_experiences self)))]"

definition Project_to_dict :: "Project \<Rightarrow> json" where
  "Project_to_dict self =
     JDict [(''name'', JStr (Project_name self)),
            (''skills'', JList (map JStr (Project_skills self))),
            (''description'', JList (map BulletPoint_to_dict (Project_description self))),
            (''link'', opt_str Website_str (Project_link self))]"

definition ProjectSection_to_dict :: "ProjectSection \<Rightarrow> json" where
  "ProjectSection_to_dict self =
     JDict [(''projects'', JList (map Project_to_dict (ProjectSection_projects self)))]"

definition Education_to_dict :: "Education \<Rightarrow> json" where
  "Education_to_dict self =
     JDict [(''school'', JStr (Education_school self)),
            (''degree'', JStr (Education_degree self)),
            (''start_date'', JStr (Date_str (Education_start_date self))),
            (''awards'', JList (map JStr (Education_awards self))),
            (''gpa'', (case Education_gpa self of None \<Rightarrow> JNull | Some g \<Rightarrow> JNum g))]"

definition EducationSection_to_dict :: "EducationSection \<Rightarrow> json" where
  "EducationSection_to_dict self =
     JDict [(''educations'', JList (map Education_to_dict (EducationSection_educations self)))]"

definition opt_dict :: "('a \<Rightarrow> json) \<Rightarrow> 'a option \<Rightarrow> json" where
  \<comment> \<open>\<open>x.to_dict() if x else None\<close>; a section object is always truthy\<close>
  "opt_dict f x = (case x of None \<Rightarrow> JNull | Some v \<Rightarrow> f v)"

definition to_dict :: "Resume \<Rightarrow> json" where
  "to_dict self =
     JDict [(''header'', Header_to_dict (Resume_header self)),
            (''skills'', opt_dict SkillSection_to_dict (Resume_skills self)),
            (''experience'', opt_dict ExperienceSection_to_dict (Resume_experience self)),
            (''projects'', opt_dict ProjectSection_to_dict (Resume_projects self)),
            (''education'', opt_dict EducationSection_to_dict (Resume_education self))]"

subsection \<open>from\_dict\<close>

definition from_dict_header :: "json \<Rightarrow> error + Header" where
  "from_dict_header data =
     bind_err (dict_get data ''header'' (JDict [])) (\<lambda>header_data.
     bind_err (dict_get header_data ''name'' (JDict [])) (\<lambda>name_j.
     bind_err (str_of name_j) (\<lambda>name.
     bind_err (opt_field header_data ''email'' Email_of) (\<lambda>email.
     bind_err (opt_field header_data ''number'' PhoneNumber_of) (\<lambda>number.
     bind_err (opt_field header_data ''linkedin'' LinkedIn_of) (\<lambda>linkedin.
     bind_err (opt_field header_data ''portfolio'' Website_of) (\<lambda>portfolio.
     bind_err (opt_field header_data ''github'' GitHub_of) (\<lambda>github.
     Header_init name email number linkedin portfolio github))))))))"

text \<open>
  \<open>set(xs)\<close> builds a set object whose iteration order follows the string hashes of
  the run; \<open>mkset\<close> stands for the order the run gives.
\<close>

definition skill_type_from_dict :: "(string list \<Rightarrow> string list) \<Rightarrow> json \<Rightarrow> error + SkillType" where
  \<comment> \<open>\<open>SkillType(st["name"], set(st["skills"]))\<close>\<close>
  "skill_type_from_dict mkset st =
     bind_err (dict_item st ''name'') (\<lambda>name_j.
     bind_err (str_of name_j) (\<lambda>name.
     bind_err (dict_item st ''skills'') (\<lambda>skills_j.
     bind_err (iter_of skills_j) (\<lambda>elems.
     bind_err (traverse str_of elems) (\<lambda>skills.
     SkillType_init name (mkset skills))))))"

definition from_dict_skills ::
  "(string list \<Rightarrow> string list) \<Rightarrow> json \<Rightarrow> error + SkillSection option" where
  "from_dict_skills mkset data =
     bind_err (dict_get data ''skills'' JNull) (\<lambda>c.
       if truthy c
       then bind_err (dict_item data ''skills'') (\<lambda>sk.
            bind_err (dict_get sk ''skill_types'' (JList [])) (\<lambda>sts.
            bind_err (iter_of sts) (\<lambda>sts.
            bind_err (traverse (skill_type_from_dict mkset) sts) (\<lambda>skill_types.
            bind_err (SkillSection_init skill_types) (\<lambda>skills. Inr (Some skills))))))
       else Inr None)"

definition bullets_from_dict :: "json \<Rightarrow> error + BulletPoint list" where
  \<comment> \<open>\<open>[BulletPoint(bp["text"]) for bp in d.get("description", [])]\<close>\<close>
  "bullets_from_dict d =
     bind_err (dict_get d ''description'' (JList [])) (\<lambda>ds.
     bind_err (iter_of ds) (\<lambda>bps.
     traverse (\<lambda>bp. bind_err (dict_item bp ''text'') BulletPoint_of) bps))"

definition experience_from_dict :: "clock \<Rightarrow> json \<Rightarrow> nat \<Rightarrow> (error + Experience) \<times> nat" where
  "experience_from_dict clk e_d n =
     (case
        bind_err (dict_item e_d ''position'') (\<lambda>position_j.
        bind_err (str_of position_j) (\<lambda>position.
        bind_err (dict_item e_d ''company'') (\<lambda>company_j.
        bind_err (str_of company_j) (\<lambda>company.
        bind_err (bullets_from_dict e_d) (\<lambda>description.
        bind_err (bind_err (dict_item e_d ''start_date'') Date_of) (\<lambda>start_date.
        bind_err (bind_err (dict_get e_d ''end_date'' JNull) (\<lambda>c.
                    if truthy c then bind_err (dict_item e_d ''end_date'') Date_of
                    else Date_init ''present'')) (\<lambda>end_date.
        Inr (position, company, description, start_date, end_date))))))))
      of Inl e \<Rightarrow> (Inl e, n)
       | Inr (position, company, description, start_date, end_date) \<Rightarrow>
           Experience_init clk position company description start_date (Some end_date) n)"

definition from_dict_experience ::
  "clock \<Rightarrow> json \<Rightarrow> nat \<Rightarrow> (error + ExperienceSection option) \<times> nat" where
  "from_dict_experience clk data n =
     (case dict_get data ''experience'' JNull of
        Inl e \<Rightarrow> (Inl e, n)
      | Inr c \<Rightarrow>
          if truthy c
          then (case bind_err (dict_item data ''experience'') (\<lambda>ex.
                     bind_err (dict_get ex ''experiences'' (JList [])) iter_of) of
                  Inl e \<Rightarrow> (Inl e, n)
                | Inr exps \<Rightarrow>
                    (case traverse_st (experience_from_dict clk) exps n of
                       (Inl e, n1) \<Rightarrow> (Inl e, n1)
                     | (Inr experiences, n1) \<Rightarrow>
                         (bind_err (ExperienceSection_init experiences)
                            (\<lambda>experience. Inr (Some experience)), n1)))
          else (Inr None, n))"

definition project_from_dict :: "json \<Rightarrow> error + Project" where
  "project_from_dict proj =
     bind_err (dict_item proj ''name'') (\<lambda>name_j.
     bind_err (str_of name_j) (\<lambda>name.
     bind_err (dict_get proj ''skills'' (JList [])) (\<lambda>skills_j.
     bind_err (str_list_of skills_j) (\<lambda>skills.
     bind_err (bullets_from_dict proj) (\<lambda>description.
     bind_err (opt_field proj ''link'' Website_of) (\<lambda>link.
     Project_init name skills description link))))))"

definition from_dict_projects :: "json \<Rightarrow> error + ProjectSection option" where
  "from_dict_projects data =
     bind_err (dict_get data ''projects'' JNull) (\<lambda>c.
       if truthy c
       then bind_err (dict_item data ''projects'') (\<lambda>pr.
            bind_err (dict_get pr ''projects'' (JList [])) (\<lambda>ps.
            bind_err (iter_of ps) (\<lambda>ps.
            bind_err (traverse project_from_dict ps) (\<lambda>project_list.
            bind_err (ProjectSection_init project_list) (\<lambda>projects. Inr (Some projects))))))
       else Inr None)"

fun awards_of :: "json \<Rightarrow> error + string list option" where
  "awards_of JNull = Inr None"
| "awards_of j = bind_err (str_list_of j) (\<lambda>a. Inr (Some a))"

fun gpa_of :: "json \<Rightarrow> error + real option" where
  "gpa_of JNull = Inr None"
| "gpa_of (JNum g) = Inr (Some g)"
| "gpa_of _ = Inl IllTyped"

definition education_from_dict :: "clock \<Rightarrow> json \<Rightarrow> nat \<Rightarrow> (error + Education) \<times> nat" where
  "education_from_dict clk edu n =
     (case
        bind_err (dict_item edu ''school'') (\<lambda>school_j.
        bind_err (str_of school_j) (\<lambda>school.
        bind_err (dict_item edu ''degree'') (\<lambda>degree_j.
        bind_err (str_of degree_j) (\<lambda>degree.
        bind_err (bind_err (dict_item edu ''start_date'') Date_of) (\<lambda>start_date.
        bind_err (bind_err (dict_get edu ''awards'' JNull) awards_of) (\<lambda>awards.
        bind_err (bind_err (dict_get edu ''gpa'' JNull) gpa_of) (\<lambda>gpa.
        Inr (school, degree, start_date, awards, gpa))))))))
      of Inl e \<Rightarrow> (Inl e, n)
       | Inr (school, degree, start_date, awards, gpa) \<Rightarrow>
           Education_init clk school degree start_date awards gpa n)"

definition from_dict_education ::
  "clock \<Rightarrow> json \<Rightarrow> nat \<Rightarrow> (error + EducationSection option) \<times> nat" where
  "from_dict_education clk data n =
     (case dict_get data ''education'' JNull of
        Inl e \<Rightarrow> (Inl e, n)
      | Inr c \<Rightarrow>
          if truthy c
          then (case bind_err (dict_item data ''education'') (\<lambda>ed.
                     bind_err (dict_get ed ''educations'' (JList [])) iter_of) of
                  Inl e \<Rightarrow> (Inl e, n)
                | Inr edus \<Rightarrow>
                    (case traverse_st (education_from_dict clk) edus n of
                       (Inl e, n1) \<Rightarrow> (Inl e, n1)
                     | (Inr educations, n1) \<Rightarrow>
                         (bind_err (EducationSection_init educations)
                            (\<lambda>education. Inr (Some education)), n1)))
          else (Inr None, n))"

definition from_dict ::
  "(string list \<Rightarrow> string list) \<Rightarrow> clock \<Rightarrow> json \<Rightarrow> nat \<Rightarrow> (error + Resume) \<times> nat" where
  "from_dict mkset clk data n =
     (case from_dict_header data of
        Inl e \<Rightarrow> (Inl e, n)
      | Inr header \<Rightarrow>
          (case from_dict_skills mkset data of
             Inl e \<Rightarrow> (Inl e, n)
           | Inr skills \<Rightarrow>
               (case from_dict_experience clk data n of
                  (Inl e, n1) \<Rightarrow> (Inl e, n1)
                | (Inr experience, n1) \<Rightarrow>
                    (case from_dict_projects data of
                       Inl e \<Rightarrow> (Inl e, n1)
                     | Inr projects \<Rightarrow>
                         (case from_dict_education clk data n1 of
                            (Inl e, n2) \<Rightarrow> (Inl e, n2)
                          | (Inr education, n2) \<Rightarrow>
                              (Inr (Resume_init header skills experience projects education),
                               n2))))))"

section \<open>The renderer (latex/converter.py)\<close>

definition tex :: "string \<Rightarrow> string" where
  \<comment> \<open>the template text below writes a backquote where the source has a backslash\<close>
  "tex s = map (\<lambda>c. if c = CHR ''`'' then BS else c) s"

definition LATEX_PREAMBLE :: string where
  \<comment> \<open>the raw string, line by line, each line with the newline that ends it\<close>
  \<open>LATEX_PREAMBLE =
     tex (concat
       [''\<newline>'',
        ''%-------------------------\<newline>'',
        ''% Resume in Latex\<newline>'',
        ''% Author : Jake Gutierrez  (adapted for programmatic generation)\<newline>'',
        ''% Based off of: https://github.com/sb2nov/resume\<newline>'',
        ''% License : MIT\<newline>'',
        ''%------------------------\<newline>'',
        ''\<newline>'',
        ''`documentclass[letterpaper,11pt]{article}\<newline>'',
        ''\<newline>'',
        ''`usepackage{latexsym}\<newline>'',
        ''`usepackage[empty]{fullpage}\<newline>'',
        ''`usepackage{titlesec}\<newline>'',
        ''`usepackage{marvosym}\<newline>'',
        ''`usepackage[usenames,dvipsnames]{color}\<newline>'',
        ''`usepackage{verbatim}\<newline>'',
        ''`usepackage{enumitem}\<newline>'',
        ''`usepackage[hidelinks]{hyperref}\<newline>'',
        ''`usepackage{fancyhdr}\<newline>'',
        ''`usepackage[english]{babel}\<newline>'',
        ''`usepackage{tabularx}\<newline>'',
        ''`usepackage{xcolor}\<newline>'',
        ''`usepackage{fontawesome5}\<newline>'',
        ''\<newline>'',
        ''`input{glyphtounicode}\<newline>'',
        ''\<newline>'',
        ''`definecolor{vibrantblue}{RGB}{0, 102, 204}\<newline>'',
        ''\<newline>'',
        ''`pagestyle{fancy}\<newline>'',
        ''`fancyhf{}\<newline>'',
        ''`fancyfoot{}\<newline>'',
        ''`renewcommand{`headrulewidth}{0pt}\<newline>'',
        ''`renewcommand{`footrulewidth}{0pt}\<newline>'',
        ''\<newline>'',
        ''% Margins (match user\'s file)\<newline>'',
        ''`addtolength{`oddsidemargin}{-0.6in}\<newline>'',
        ''`addtolength{`evensidemargin}{-0.6in}\<newline>'',
        ''`addtolength{`textwidth}{1.2in}\<newline>'',
        ''`addtolength{`topmargin}{-.6in}\<newline>'',
        ''`addtolength{`textheight}{1.2in}\<newline>'',
        ''\<newline>'',
        ''`urlstyle{same}\<newline>'',
        ''\<newline>'',
        ''`raggedbottom\<newline>'',
        ''`raggedright\<newline>'',
        ''`setlength{`tabcolsep}{0in}\<newline>'',
        ''\<newline>'',
        ''% Section formatting\<newline>'',
        ''`titleformat{`section}{\<newline>'',
        '' `vspace{-8pt}`scshape`raggedright`large\<newline>'',
        ''}{}{0em}{}[`color{black}`titlerule `vspace{-3pt}]\<newline>'',
        ''\<newline>'',
        ''`pdfgentounicode=1\<newline>'',
        ''\<newline>'',
        ''% Custom commands (verbatim)\<newline>'',
        ''`newcommand{`resumeItem}[1]{\<newline>'',
        '' `item`small{\<newline>'',
        '' {#1 `vspace{-2pt}} }\<newline>'',
        ''}\<newline>'',
        ''`newcommand{`resumeSubheading}[4]{\<newline>'',
        '' `vspace{-1pt}`item\<newline>'',
        '' `begin{tabular*}{0.97`textwidth}[t]{l@'' @ ''{`extracolsep{`fill}}r}\<newline>'',
        '' `textbf{#1} & #2 ``\<newline>'',
        '' `textit{`small#3} & `textit{`small #4} ``\<newline>'',
        '' `end{tabular*}`vspace{-4pt}\<newline>'',
        ''}\<newline>'',
        ''`newcommand{`resumeSubSubheading}[2]{\<newline>'',
        '' `item\<newline>'',
        '' `begin{tabular*}{0.97`textwidth}{l@'' @ ''{`extracolsep{`fill}}r}\<newline>'',
        '' `textit{`small#1} & `textit{`small #2} ``\<newline>'',
        '' `end{tabular*}`vspace{-4pt}\<newline>'',
        ''}\<newline>'',
        ''`newcommand{`resumeProjectHeading}[2]{\<newline>'',
        '' `item\<newline>'',
        '' `begin{tabular*}{0.97`textwidth}{l@'' @ ''{`extracolsep{`fill}}r}\<newline>'',
        '' `small#1 & #2 ``\<newline>'',
        '' `end{tabular*}`vspace{-4pt}\<newline>'',
        ''}\<newline>'',
        ''`newcommand{`resumeSubItem}[1]{`resumeItem{#1}`vspace{-4pt}}\<newline>'',
        ''`renewcommand`labelitemii{$`vcenter{`hbox{`tiny$`bullet$}}$}\<newline>'',
        ''`newcommand{`resumeSubHeadingListStart}{`begin{itemize}[leftmargin=0.15in, label={}, itemsep=-0.25pt, topsep=0pt]}\<newline>'',
        ''`newcommand{`resumeSubHeadingListEnd}{`end{itemize}}\<newline>'',
        ''`newcommand{`resumeItemListStart}{`begin{itemize}[itemsep=-0.25pt, topsep=0pt]}\<newline>'',
        ''`newcommand{`resumeItemListEnd}{`end{itemize}`vspace{-3pt}}\<newline>'',
        ''\<newline>'',
        ''`begin{document}\<newline>''])\<close>

definition LATEX_END :: string where
  "LATEX_END = BS # ''end{document}''"

definition LATEX_SPECIALS :: "(char \<times> string) list" where
  "LATEX_SPECIALS =
     [(CHR ''&'', BS # ''&''),
      (CHR ''%'', BS # ''%''),
      (CHR ''$'', BS # ''$''),
      (CHR ''#'', BS # ''#''),
      (CHR ''_'', BS # ''_''),
      (CHR ''{'', BS # ''{''),
      (CHR ''}'', BS # ''}''),
      (CHR ''~'', BS # ''textasciitilde{}''),
      (CHR ''^'', BS # ''textasciicircum{}''),
      (BS, BS # ''textbackslash{}'')]"

fun esc_loop :: "string \<Rightarrow> string list \<Rightarrow> string list" where
  \<comment> \<open>\<open>for ch in str(text): out.append(_LATEX_SPECIALS.get(ch, ch))\<close>\<close>
  "esc_loop [] out = out"
| "esc_loop (ch # rest) out =
     esc_loop rest (out @ [case map_of LATEX_SPECIALS ch of None \<Rightarrow> [ch] | Some r \<Rightarrow> r])"

definition esc :: "string option \<Rightarrow> string" where
  \<comment> \<open>the argument is \<open>None\<close> or the \<open>str()\<close> of the value passed\<close>
  "esc text = (case text of None \<Rightarrow> [] | Some t \<Rightarrow> concat (esc_loop t []))"

text \<open>
  \<open>href\<close> is annotated for \<open>Optional[str]\<close>; build\_projects passes the \<open>Website\<close>
  object of a project as it is.
\<close>

datatype url = UrlNone | UrlStr string | UrlWebsite Website

fun href :: "url \<Rightarrow> string \<Rightarrow> bool \<Rightarrow> error + string" where
  "href UrlNone label blue = Inr (esc (Some label))"
| "href (UrlStr u) label blue =
     (if u = [] then Inr (esc (Some label))
      else if blue
        then Inr (BS # ''href{'' @ u @ ''}{'' @ BS # ''textcolor{vibrantblue}{'' @ esc (Some label) @ ''}}'')
      else Inr (BS # ''href{'' @ u @ ''}{'' @ esc (Some label) @ ''}''))"
| "href (UrlWebsite w) label blue = Inl TypeError"

definition fa :: "string option \<Rightarrow> string" where
  "fa icon_name =
     (case icon_name of
        None \<Rightarrow> []
      | Some i \<Rightarrow>
          if i = [] then []
          else (case map_of
                  [(''Train'', BS # ''faTrain''),
                   (''Heartbeat'', BS # ''faHeartbeat''),
                   (''Trophy'', BS # ''faTrophy''),
                   (''Dragon'', BS # ''faDragon''),
                   (''Plus'', BS # ''faPlus''),
                   (''GraduationCap'', BS # ''faGraduationCap''),
                   (''ShareSquare'', BS # ''faShareSquare''),
                   (''Github'', BS # ''faGithub''),
                   (''Linkedin'', BS # ''faLinkedin''),
                   (''Globe'', BS # ''faGlobe''),
                   (''Envelope'', BS # ''faEnvelope''),
                   (''Phone'', BS # ''faPhone'')] i
                of None \<Rightarrow> [] | Some cmd \<Rightarrow> cmd))"

definition blue_icon :: "string option \<Rightarrow> string" where
  "blue_icon icon_name =
     (let cmd = fa icon_name
      in if cmd = [] then []
         else ''{'' @ BS # ''textcolor{vibrantblue}'' @ cmd @ BS # ''hspace{0.5mm}} '')"

definition maybe_icon_from_role :: "string \<Rightarrow> string option" where
  "maybe_icon_from_role role =
     (let s = lower role
      in if sublist ''test'' s \<or> sublist ''automation'' s then Some ''Train''
         else if sublist ''emg'' s \<or> sublist ''sensor'' s \<or> sublist ''bio'' s then Some ''Heartbeat''
         else if sublist ''hackathon'' s \<or> sublist ''founder'' s \<or> sublist ''lead'' s
           then Some ''Trophy''
         else if sublist ''karate'' s \<or> sublist ''martial'' s then Some ''Dragon''
         else if sublist ''teacher'' s \<or> sublist ''tutor'' s \<or> sublist ''assistant'' s
           then Some ''Plus''
         else None)"

definition contact_chunk :: "string \<Rightarrow> string \<Rightarrow> string" where
  \<comment> \<open>the icon text, a line break with indentation, and the link\<close>
  "contact_chunk icon l = icon @ ''\<newline>    '' @ l"

definition build_header :: "Header \<Rightarrow> error + string" where
  "build_header h =
     bind_err (case Header_email h of
                 None \<Rightarrow> Inr []
               | Some e \<Rightarrow>
                   (let email = Email_str e
                    in bind_err (href (UrlStr (''mailto:'' @ email)) email True) (\<lambda>l.
                         Inr [contact_chunk (''    {'' @ BS # ''textcolor{vibrantblue}'' @ BS # ''faEnvelope '' @ BS # ''hspace{0.5mm}}'') l]))) (\<lambda>c1.
     bind_err (case Header_number h of
                 None \<Rightarrow> Inr []
               | Some p \<Rightarrow>
                   (let digits = PhoneNumber_str p;
                        tel_url = ''tel:'' @ filter (\<lambda>ch. py_isdigit ch \<or> ch = CHR ''+'') digits
                    in bind_err (href (UrlStr tel_url) digits True) (\<lambda>l.
                         Inr [contact_chunk (''    {'' @ BS # ''textcolor{vibrantblue}'' @ BS # ''faPhone '' @ BS # ''hspace{0.5mm}}'') l]))) (\<lambda>c2.
     bind_err (case Header_linkedin h of
                 None \<Rightarrow> Inr []
               | Some x \<Rightarrow>
                   bind_err (href (UrlStr (LinkedIn_str x)) ''Linkedin'' True) (\<lambda>l.
                     Inr [contact_chunk (''    {'' @ BS # ''textcolor{vibrantblue}'' @ BS # ''faLinkedin '' @ BS # ''hspace{0.5mm}}'') l])) (\<lambda>c3.
     bind_err (case Header_portfolio h of
                 None \<Rightarrow> Inr []
               | Some x \<Rightarrow>
                   bind_err (href (UrlStr (Website_str x)) ''Website'' True) (\<lambda>l.
                     Inr [contact_chunk (''    {'' @ BS # ''textcolor{vibrantblue}'' @ BS # ''faGlobe '' @ BS # ''hspace{0.5mm}}'') l])) (\<lambda>c4.
     bind_err (case Header_github h of
                 None \<Rightarrow> Inr []
               | Some x \<Rightarrow>
                   bind_err (href (UrlStr (GitHub_str x)) ''GitHub'' True) (\<lambda>l.
                     Inr [contact_chunk (''    {'' @ BS # ''textcolor{vibrantblue}'' @ BS # ''faGithub '' @ BS # ''hspace{0.5mm}}'') l])) (\<lambda>c5.
     Inr (join [NL]
            [BS # ''begin{center}'',
             ''    '' @ BS # ''textbf{'' @ BS # ''Huge '' @ BS # ''scshape '' @ esc (Some (Header_name h)) @ ''} '' @ [BS] @ BS # '' '' @ BS # ''vspace{4pt}'',
             ''    '' @ BS # ''small '',
             join ('' \<newline>    $|$ \<newline>    '') (c1 @ c2 @ c3 @ c4 @ c5),
             BS # ''end{center}'',
             []]))))))"

definition skill_line :: "SkillType \<Rightarrow> string" where
  "skill_line st =
     ''     '' @ BS # ''textbf{'' @ esc (Some (SkillType_name st)) @ ''}{: ''
       @ esc (Some (join '', '' (SkillType_skills st))) @ ''} '' @ [BS] @ [BS]"

definition build_skills :: "SkillSection option \<Rightarrow> string" where
  "build_skills skills =
     (case skills of
        None \<Rightarrow> []
      | Some sk \<Rightarrow>
          if SkillSection_skill_types sk = [] then []
          else join [NL]
                 [BS # ''section{Skills}'',
                  '' '' @ BS # ''begin{itemize}[leftmargin=0.15in, label={}]'',
                  ''    '' @ BS # ''small{'' @ BS # ''item{'',
                  join [NL] (map skill_line (SkillSection_skill_types sk)),
                  ''    }}'',
                  '' '',
                  '' '' @ BS # ''end{itemize}'',
                  []])"

definition bullet_lines :: "string \<Rightarrow> string \<Rightarrow> string \<Rightarrow> BulletPoint list \<Rightarrow> string list" where
  \<comment> \<open>the item list of an entry: nothing when there is no bullet\<close>
  "bullet_lines start item stop bullets =
     (if bullets = [] then []
      else [start] @ map (\<lambda>bp. item @ esc (Some (BulletPoint_text bp)) @ ''}'') bullets @ [stop])"

definition experience_lines :: "Experience \<Rightarrow> error + string list" where
  "experience_lines e =
     (let position = Experience_position e;
          company = Experience_company e;
          start = Date_str (Experience_start_date e);
          end_d = Date_str (Experience_end_date e);
          location = [];
          role_link = UrlNone;
          company_link = UrlNone;
          icon = maybe_icon_from_role position;
          icon_prefix = blue_icon icon
      in bind_err (href role_link position True) (\<lambda>l.
           let role_label = BS # ''textbf{'' @ l @ ''}'';
               left_top = icon_prefix @ role_label;
               right_top = strip (esc (Some start) @ '' -- '' @ esc (Some end_d))
           in bind_err (href company_link company False) (\<lambda>left_bottom.
                let right_bottom = esc (Some location)
                in Inr ([BS # ''resumeSubheading{'' @ left_top @ ''}{'' @ right_top @ ''}{''
                           @ left_bottom @ ''}{'' @ right_bottom @ ''}'']
                        @ bullet_lines (''      '' @ BS # ''resumeItemListStart'')
                            (''        '' @ BS # ''resumeItem{'')
                            (''      '' @ BS # ''resumeItemListEnd'')
                            (Experience_description e)))))"

definition build_experience :: "ExperienceSection option \<Rightarrow> error + string" where
  "build_experience exp_sec =
     (case exp_sec of
        None \<Rightarrow> Inr []
      | Some ex \<Rightarrow>
          if ExperienceSection_experiences ex = [] then Inr []
          else bind_err (traverse experience_lines (ExperienceSection_experiences ex)) (\<lambda>ls.
                 Inr (join [NL]
                        ([BS # ''section{Experience}'', [], BS # ''resumeSubHeadingListStart'']
                         @ concat ls
                         @ [BS # ''resumeSubHeadingListEnd'', []]))))"

definition project_left :: "Project \<Rightarrow> error + string" where
  "project_left p =
     (let name = Project_name p;
          link = (case Project_link p of None \<Rightarrow> UrlNone | Some w \<Rightarrow> UrlWebsite w);
          skills = join '', '' (Project_skills p);
          icon = Some ''ShareSquare''
      in bind_err (href link name True) (\<lambda>l.
           Inr (''{'' @ BS # ''textcolor{vibrantblue}'' @ fa icon @ '' '' @ BS # ''hspace{0.5mm} '' @ BS # ''textbf{'' @ l @ ''}} $|$ '' @ BS # ''emph{'' @ BS # ''textbf{'' @ esc (Some skills) @ ''}}'')))"

definition project_lines :: "Project \<Rightarrow> error + string list" where
  "project_lines p =
     bind_err (project_left p) (\<lambda>left.
       Inr ([''      '' @ BS # ''resumeSubHeadingListStart'',
             BS # ''resumeProjectHeading{'' @ left @ ''}{}'']
            @ bullet_lines (''          '' @ BS # ''resumeItemListStart'')
                (''            '' @ BS # ''resumeItem{'')
                (''          '' @ BS # ''resumeItemListEnd'')
                (Project_description p)
            @ [''    '' @ BS # ''resumeSubHeadingListEnd'', []]))"

definition build_projects :: "ProjectSection option \<Rightarrow> error + string" where
  "build_projects proj_sec =
     (case proj_sec of
        None \<Rightarrow> Inr []
      | Some ps \<Rightarrow>
          if ProjectSection_projects ps = [] then Inr []
          else bind_err (traverse project_lines (ProjectSection_projects ps)) (\<lambda>ls.
                 Inr (join [NL] ([BS # ''section{Projects}'', []] @ concat ls))))"

text \<open>
  \<open>str(gpa)\<close> prints a float; the printer is a parameter of the renderer (\<open>fstr\<close>).
\<close>

definition education_line :: "(real \<Rightarrow> string) \<Rightarrow> Education \<Rightarrow> error + string" where
  "education_line fstr edu =
     (let school = Education_school edu;
          school_link = UrlNone;
          start = Date_str (Education_start_date edu);
          when = esc (Some start);
          degree = Education_degree edu;
          gpa = Education_gpa edu;
          awards = Education_awards edu;
          location = [];
          tail_bits = (if degree \<noteq> [] then [degree] else [])
            @ (if awards \<noteq> [] then [join '', '' awards] else [])
            @ (case gpa of
                 None \<Rightarrow> []
               | Some g \<Rightarrow> [if \<not> sublist ''GPA'' (fstr g) then fstr g @ '' GPA'' else fstr g]);
          third = join '', '' (filter (\<lambda>t. t \<noteq> []) tail_bits)
      in bind_err (href school_link school True) (\<lambda>l.
           let left_top = ''{'' @ BS # ''textcolor{vibrantblue}'' @ BS # ''faGraduationCap'' @ BS # ''hspace{0.5mm} '' @ BS # ''textbf{'' @ l @ ''}}''
           in Inr (BS # ''resumeSubheading{'' @ left_top @ ''}{'' @ when @ ''}{'' @ esc (Some third)
                     @ ''}{'' @ esc (Some location) @ ''}'')))"

definition build_education :: "(real \<Rightarrow> string) \<Rightarrow> EducationSection option \<Rightarrow> error + string" where
  "build_education fstr edu_sec =
     (case edu_sec of
        None \<Rightarrow> Inr []
      | Some es \<Rightarrow>
          if EducationSection_educations es = [] then Inr []
          else bind_err (traverse (education_line fstr) (EducationSection_educations es)) (\<lambda>ls.
                 Inr (join [NL]
                        ([''%-----------EDUCATION-----------'', BS # ''section{Education}'', ''  '' @ BS # ''resumeSubHeadingListStart'']
                         @ ls
                         @ [''  '' @ BS # ''resumeSubHeadingListEnd'', []]))))"

definition resume_to_latex :: "(real \<Rightarrow> string) \<Rightarrow> Resume \<Rightarrow> error + string" where
  "resume_to_latex fstr resume =
     bind_err (build_header (Resume_header resume)) (\<lambda>p_header.
     bind_err (Inr (build_skills (Resume_skills resume))) (\<lambda>p_skills.
     bind_err (build_experience (Resume_experience resume)) (\<lambda>p_experience.
     bind_err (build_projects (Resume_projects resume)) (\<lambda>p_projects.
     bind_err (build_education fstr (Resume_education resume)) (\<lambda>p_education.
     Inr (join [NL]
            (filter (\<lambda>p. p \<noteq> [])
               [LATEX_PREAMBLE, p_header, p_skills, p_experience, p_projects, p_education,
                LATEX_END])))))))"

definition load_json_and_generate_latex ::
  "(string list \<Rightarrow> string list) \<Rightarrow> clock \<Rightarrow> (real \<Rightarrow> string) \<Rightarrow> json \<Rightarrow> nat \<Rightarrow> error + string" where
  \<comment> \<open>the record is the content of the file, already parsed by \<open>json.load\<close>\<close>
  "load_json_and_generate_latex mkset clk fstr data n =
     (case from_dict mkset clk data n of
        (Inl e, n') \<Rightarrow> Inl e
      | (Inr resume, n') \<Rightarrow> resume_to_latex fstr resume)"

section \<open>Notions used to state the properties\<close>

definition spec_esc_char :: "char \<Rightarrow> string" where
  \<comment> \<open>the substitution table as the specification words it: ten characters have an
      escaped equivalent, every other character stands for itself\<close>
  "spec_esc_char c =
     (if c = CHR ''&'' then BS # ''&''
      else if c = CHR ''%'' then BS # ''%''
      else if c = CHR ''$'' then BS # ''$''
      else if c = CHR ''#'' then BS # ''#''
      else if c = CHR ''_'' then BS # ''_''
      else if c = CHR ''{'' then BS # ''{''
      else if c = CHR ''}'' then BS # ''}''
      else if c = CHR ''~'' then BS # ''textasciitilde{}''
      else if c = CHR ''^'' then BS # ''textasciicircum{}''
      else if c = BS then BS # ''textbackslash{}''
      else [c])"

fun diverges :: "string \<Rightarrow> string \<Rightarrow> bool" where
  \<comment> \<open>the two texts differ at a position both of them have\<close>
  "diverges (a # r) (b # n) = (a \<noteq> b \<or> diverges r n)"
| "diverges _ _ = False"

fun bs_clear :: "string \<Rightarrow> string \<Rightarrow> bool" where
  \<comment> \<open>no backslash of the text starts the control word \<open>n\<close>, nor could start it if
      more text followed\<close>
  "bs_clear n [] = True"
| "bs_clear n (c # r) = ((c = BS \<longrightarrow> diverges r n) \<and> bs_clear n r)"

definition ci_letter :: "char \<Rightarrow> char \<Rightarrow> bool" where
  \<comment> \<open>\<open>c\<close> is the lower-case ASCII letter \<open>l\<close> or its capital\<close>
  "ci_letter c l = (c = l \<or> (of_char c :: nat) + 32 = of_char l)"

definition clock_2026 :: clock where
  \<comment> \<open>a clock read on 3 November 2026 at noon that advances by a microsecond between
      two readings\<close>
  "clock_2026 i = (2026, 11, 3, 12, 0, 0, i)"

definition clock_2031 :: clock where
  \<comment> \<open>the same kind of clock, read on 1 March 2031\<close>
  "clock_2031 i = (2031, 3, 1, 9, 0, 0, i)"

definition spec_instant :: "datetime \<Rightarrow> Date \<Rightarrow> datetime option" where
  \<comment> \<open>the point in time a date stands for when \<open>present\<close> compares as the current
      moment \<open>now\<close>\<close>
  "spec_instant now d = (if Date_str d = ''present'' then Some now else strptime (Date_str d))"

definition spec_rejects :: "datetime \<Rightarrow> Date \<Rightarrow> Date option \<Rightarrow> bool" where
  \<comment> \<open>the rejection rule as the specification words it: the start is not before the
      end (which defaults to \<open>present\<close>), or the start is later than the current moment\<close>
  "spec_rejects now start_date end_date =
     (case (spec_instant now start_date,
            spec_instant now (case end_date of None \<Rightarrow> Date_obj ''present'' | Some d \<Rightarrow> d))
      of (Some s, Some e) \<Rightarrow> s \<ge> e \<or> s > now
       | _ \<Rightarrow> True)"

definition frozen :: "datetime \<Rightarrow> clock" where
  \<comment> \<open>the clock that reads the same instant every time\<close>
  "frozen now = (\<lambda>i. now)"

text \<open>
  A document is validated at an instant when each of its value objects and aggregates
  is what its constructor returns for the field values the document holds, with the
  clock reading that instant.
\<close>

definition validated_Date :: "Date \<Rightarrow> bool" where
  "validated_Date d = (Date_init (Date_str d) = Inr d)"

definition validated_Header :: "Header \<Rightarrow> bool" where
  "validated_Header h =
     ((case Header_email h of None \<Rightarrow> True | Some x \<Rightarrow> Email_init (Email_str x) = Inr x)
      \<and> (case Header_number h of None \<Rightarrow> True
          | Some x \<Rightarrow> PhoneNumber_init (PhoneNumber_str x) = Inr x)
      \<and> (case Header_linkedin h of None \<Rightarrow> True
          | Some x \<Rightarrow> LinkedIn_init (LinkedIn_str x) = Inr x)
      \<and> (case Header_portfolio h of None \<Rightarrow> True
          | Some x \<Rightarrow> Website_init (Website_str x) = Inr x)
      \<and> (case Header_github h of None \<Rightarrow> True | Some x \<Rightarrow> GitHub_init (GitHub_str x) = Inr x))"

definition validated_SkillType :: "SkillType \<Rightarrow> bool" where
  "validated_SkillType st = (SkillType_init (SkillType_name st) (SkillType_skills st) = Inr st)"

definition validated_BulletPoint :: "BulletPoint \<Rightarrow> bool" where
  "validated_BulletPoint b = (BulletPoint_init (BulletPoint_text b) = Inr b)"

definition validated_Experience :: "datetime \<Rightarrow> Experience \<Rightarrow> bool" where
  "validated_Experience now e =
     (list_all validated_BulletPoint (Experience_description e)
      \<and> validated_Date (Experience_start_date e)
      \<and> validated_Date (Experience_end_date e)
      \<and> fst (Experience_init (frozen now) (Experience_position e) (Experience_company e)
                (Experience_description e) (Experience_start_date e)
                (Some (Experience_end_date e)) 0) = Inr e)"

definition validated_Project :: "Project \<Rightarrow> bool" where
  "validated_Project p =
     (list_all validated_BulletPoint (Project_description p)
      \<and> (case Project_link p of None \<Rightarrow> True | Some x \<Rightarrow> Website_init (Website_str x) = Inr x)
      \<and> Project_init (Project_name p) (Project_skills p) (Project_description p)
            (Project_link p) = Inr p)"

definition validated_Education :: "datetime \<Rightarrow> Education \<Rightarrow> bool" where
  "validated_Education now ed =
     (validated_Date (Education_start_date ed)
      \<and> fst (Education_init (frozen now) (Education_school ed) (Education_degree ed)
                (Education_start_date ed) (Some (Education_awards ed)) (Education_gpa ed) 0)
          = Inr ed)"

definition validated_Resume :: "datetime \<Rightarrow> Resume \<Rightarrow> bool" where
  "validated_Resume now r =
     (validated_Header (Resume_header r)
      \<and> (case Resume_skills r of None \<Rightarrow> True
          | Some s \<Rightarrow> list_all validated_SkillType (SkillSection_skill_types s))
      \<and> (case Resume_experience r of None \<Rightarrow> True
          | Some s \<Rightarrow> list_all (validated_Experience now) (ExperienceSection_experiences s))
      \<and> (case Resume_projects r of None \<Rightarrow> True
          | Some s \<Rightarrow> list_all validated_Project (ProjectSection_projects s))
      \<and> (case Resume_education r of None \<Rightarrow> True
          | Some s \<Rightarrow> list_all (validated_Education now) (EducationSection_educations s)))"

definition calendar_starts :: "Resume \<Rightarrow> bool" where
  \<comment> \<open>no experience of the document starts at \<open>present\<close>\<close>
  "calendar_starts r =
     (case Resume_experience r of None \<Rightarrow> True
      | Some s \<Rightarrow> list_all (\<lambda>e. Date_str (Experience_start_date e) \<noteq> ''present'')
                    (ExperienceSection_experiences s))"

definition same_skill_group :: "SkillType \<Rightarrow> SkillType \<Rightarrow> bool" where
  "same_skill_group a b =
     (SkillType_name a = SkillType_name b \<and> set (SkillType_skills a) = set (SkillType_skills b))"

definition same_fields :: "Resume \<Rightarrow> Resume \<Rightarrow> bool" where
  \<comment> \<open>every object of the model is determined by its strings, so equal objects have
      equal string forms; skill groups are compared as sets\<close>
  "same_fields r r' =
     (Resume_header r' = Resume_header r
      \<and> Resume_experience r' = Resume_experience r
      \<and> Resume_projects r' = Resume_projects r
      \<and> Resume_education r' = Resume_education r
      \<and> (case (Resume_skills r, Resume_skills r') of
            (None, None) \<Rightarrow> True
          | (Some s, Some s') \<Rightarrow>
              list_all2 same_skill_group (SkillSection_skill_types s) (SkillSection_skill_types s')
          | _ \<Rightarrow> False))"

definition reorder :: "(string list \<Rightarrow> string list) \<Rightarrow> SkillType \<Rightarrow> SkillType" where
  "reorder mkset st = \<lparr>SkillType_name = SkillType_name st, SkillType_skills = mkset (SkillType_skills st)\<rparr>"

definition sample_resume :: Resume where
  \<comment> \<open>the document of the repository's round-trip test\<close>
  \<open>sample_resume =
     Resume_init
       \<lparr>Header_name = ''Alice Example'',
        Header_email = Some (Email_obj ''alice@example.com''),
        Header_number = Some (PhoneNumber_obj ''1234567890''),
        Header_linkedin = Some (LinkedIn_obj ''https://www.linkedin.com/in/fake-user-alice/''),
        Header_portfolio = Some (Website_obj ''https://portfolio.com''),
        Header_github = Some (GitHub_obj ''https://github.com/fake-user-alice/'')\<rparr>
       (Some \<lparr>SkillSection_skill_types =
                [\<lparr>SkillType_name = ''Programming'', SkillType_skills = [''Python'', ''C++'']\<rparr>,
                 \<lparr>SkillType_name = ''Web'', SkillType_skills = [''HTML'', ''CSS'']\<rparr>]\<rparr>)
       (Some \<lparr>ExperienceSection_experiences =
                [\<lparr>Experience_position = ''Developer'', Experience_company = ''Tech Co'',
                  Experience_description = [\<lparr>BulletPoint_text = ''Built cool stuff''\<rparr>],
                  Experience_start_date = Date_obj ''01-01-2022'',
                  Experience_end_date = Date_obj ''01-01-2023''\<rparr>]\<rparr>)
       (Some \<lparr>ProjectSection_projects =
                [\<lparr>Project_name = ''Portfolio Site'', Project_skills = [''React'', ''Tailwind''],
                  Project_description = [\<lparr>BulletPoint_text = ''Built personal portfolio''\<rparr>],
                  Project_link = Some (Website_obj ''https://example.com'')\<rparr>]\<rparr>)
       (Some \<lparr>EducationSection_educations =
                [\<lparr>Education_school = ''University X'', Education_degree = ''BSc CS'',
                  Education_start_date = Date_obj ''01-09-2019'',
                  Education_awards = [''Dean\'s List''], Education_gpa = Some 3.9\<rparr>]\<rparr>)\<close>

definition stale_experience :: Experience where
  \<comment> \<open>an experience that starts at \<open>present\<close> and ends on 1 January 2030\<close>
  "stale_experience =
     \<lparr>Experience_position = ''Dev'', Experience_company = ''Co'',
      Experience_description = [\<lparr>BulletPoint_text = ''Did X''\<rparr>],
      Experience_start_date = Date_obj ''present'',
      Experience_end_date = Date_obj ''01-01-2030''\<rparr>"

definition stale_resume :: Resume where
  "stale_resume =
     Resume_init
       \<lparr>Header_name = ''A'', Header_email = None, Header_number = None,
        Header_linkedin = None, Header_portfolio = None, Header_github = None\<rparr>
       None (Some \<lparr>ExperienceSection_experiences = [stale_experience]\<rparr>) None None"


definition print_3_9 :: "real \<Rightarrow> string" where
  \<comment> \<open>a float printer for documents whose only GPA is 3.9\<close>
  "print_3_9 g = ''3.9''"

definition plain_resume :: Resume where
  \<comment> \<open>a header and one experience, no other section\<close>
  "plain_resume =
     Resume_init
       \<lparr>Header_name = ''A & B'', Header_email = None, Header_number = None,
        Header_linkedin = None, Header_portfolio = None, Header_github = None\<rparr>
       None
       (Some \<lparr>ExperienceSection_experiences =
                [\<lparr>Experience_position = ''Dev'', Experience_company = ''Co'',
                  Experience_description = [\<lparr>BulletPoint_text = ''Did X''\<rparr>],
                  Experience_start_date = Date_obj ''01-01-2022'',
                  Experience_end_date = Date_obj ''01-01-2023''\<rparr>]\<rparr>)
       None None"

definition emit :: "string list \<Rightarrow> string" where
  \<comment> \<open>the blocks that are not empty, one below the other\<close>
  "emit parts = join [NL] (filter (\<lambda>p. p \<noteq> []) parts)"

fun bs_safe :: "char \<Rightarrow> string \<Rightarrow> bool" where
  \<comment> \<open>every backslash of the text is followed at once by a visible character other
      than \<open>a\<close>\<close>
  "bs_safe a [] = True"
| "bs_safe a [c] = (c \<noteq> BS)"
| "bs_safe a (c # d # r) = ((c = BS \<longrightarrow> d \<noteq> a \<and> \<not> py_isspace d) \<and> bs_safe a (d # r))"

definition verbatim_clean :: "Header \<Rightarrow> bool" where
  \<comment> \<open>the contact values that are copied into the output as they are hold no backslash\<close>
  "verbatim_clean h =
     ((case Header_email h of None \<Rightarrow> True | Some x \<Rightarrow> BS \<notin> set (Email_str x))
      \<and> (case Header_linkedin h of None \<Rightarrow> True | Some x \<Rightarrow> BS \<notin> set (LinkedIn_str x))
      \<and> (case Header_portfolio h of None \<Rightarrow> True | Some x \<Rightarrow> BS \<notin> set (Website_str x))
      \<and> (case Header_github h of None \<Rightarrow> True | Some x \<Rightarrow> BS \<notin> set (GitHub_str x)))"

definition injected_resume :: Resume where
  \<comment> \<open>a document with a name and an e-mail address, and no other block\<close>
  "injected_resume =
     Resume_init
       \<lparr>Header_name = ''A'', Header_email = Some (Email_obj (BS # ''section{Skills}@a.b'')),
        Header_number = None, Header_linkedin = None, Header_portfolio = None,
        Header_github = None\<rparr>
       None None None None"


section \<open>Properties\<close>

lemma conc_iff: "w \<in> conc A B \<longleftrightarrow> (\<exists>u v. w = u @ v \<and> u \<in> A \<and> v \<in> B)"
  by (auto simp: conc_def)

lemma nil_in_conc: "[] \<in> conc A B \<longleftrightarrow> [] \<in> A \<and> [] \<in> B"
  by (auto simp: conc_def)

lemma star_cons_split:
  assumes "w \<in> star A" and "w = c # s"
  shows "\<exists>u v. s = u @ v \<and> c # u \<in> A \<and> v \<in> star A"
  using assms
proof (induction arbitrary: s rule: star.induct)
  case star_nil
  then show ?case by simp
next
  case (star_step u v)
  show ?case
  proof (cases u)
    case Nil
    with star_step show ?thesis by simp
  next
    case (Cons a u')
    with star_step.prems have "a = c" and "s = u' @ v" by simp_all
    with Cons star_step.hyps show ?thesis by blast
  qed
qed

lemma cons_in_star: "c # s \<in> star A \<longleftrightarrow> (\<exists>u v. s = u @ v \<and> c # u \<in> A \<and> v \<in> star A)"
proof
  assume "c # s \<in> star A"
  then show "\<exists>u v. s = u @ v \<and> c # u \<in> A \<and> v \<in> star A"
    by (rule star_cons_split) simp
next
  assume "\<exists>u v. s = u @ v \<and> c # u \<in> A \<and> v \<in> star A"
  then obtain u v where "s = u @ v" "c # u \<in> A" "v \<in> star A" by blast
  then have "(c # u) @ v \<in> star A" by (intro star_step)
  with \<open>s = u @ v\<close> show "c # s \<in> star A" by simp
qed

lemma cons_in_conc:
  "c # s \<in> conc A B \<longleftrightarrow>
     (\<exists>u v. s = u @ v \<and> c # u \<in> A \<and> v \<in> B) \<or> ([] \<in> A \<and> c # s \<in> B)"
  by (auto simp: conc_def Cons_eq_append_conv)

lemma nullable_lang: "nullable r \<longleftrightarrow> [] \<in> lang r"
  by (induction r) (auto simp: nil_in_conc intro: star_nil)

lemma lang_deriv: "s \<in> lang (deriv c r) \<longleftrightarrow> c # s \<in> lang r"
proof (induction r arbitrary: s)
  case (Seq a b)
  have "c # s \<in> lang (Seq a b) \<longleftrightarrow>
          (\<exists>u v. s = u @ v \<and> u \<in> lang (deriv c a) \<and> v \<in> lang b)
          \<or> (nullable a \<and> s \<in> lang (deriv c b))"
    by (simp add: cons_in_conc nullable_lang Seq)
  also have "\<dots> \<longleftrightarrow> s \<in> lang (deriv c (Seq a b))"
    by (auto simp: conc_iff)
  finally show ?case by simp
next
  case (Rep a)
  then show ?case
    by (auto simp: cons_in_star conc_iff)
qed auto

lemma fullmatch_lang: "fullmatch r s \<longleftrightarrow> s \<in> lang r"
  by (induction s arbitrary: r) (simp_all add: nullable_lang lang_deriv)

lemma re_match_lang:
  "re_match r s \<longleftrightarrow> s \<in> lang r \<or> (\<exists>w. s = w @ [NL] \<and> w \<in> lang r)"
  by (auto simp: re_match_def fullmatch_lang Opt_def Lit_def conc_iff)

lemma conc_Cls: "w \<in> conc (lang (Cls p)) B \<longleftrightarrow> (\<exists>c t. w = c # t \<and> p c \<and> t \<in> B)"
proof
  assume "w \<in> conc (lang (Cls p)) B"
  then show "\<exists>c t. w = c # t \<and> p c \<and> t \<in> B" by (auto simp: conc_iff)
next
  assume "\<exists>c t. w = c # t \<and> p c \<and> t \<in> B"
  then obtain c t where "w = [c] @ t" "p c" "t \<in> B" by auto
  then show "w \<in> conc (lang (Cls p)) B" unfolding conc_iff by (intro exI [of _ "[c]"] exI [of _ t]) simp
qed

lemma lang_Times_Cls:
  "s \<in> lang (Times n (Cls p)) \<longleftrightarrow> length s = n \<and> (\<forall>c \<in> set s. p c)"
proof (induction n arbitrary: s)
  case 0
  then show ?case by auto
next
  case (Suc n)
  have "s \<in> lang (Times (Suc n) (Cls p)) \<longleftrightarrow>
          (\<exists>c t. s = c # t \<and> p c \<and> t \<in> lang (Times n (Cls p)))"
    by (simp only: Times.simps lang.simps(5) conc_Cls)
  also have "\<dots> \<longleftrightarrow> length s = Suc n \<and> (\<forall>c \<in> set s. p c)"
    by (cases s) (auto simp: Suc)
  finally show ?case .
qed

lemma nullable_Rep1: "nullable (Rep1 r) = nullable r"
  by (simp add: Rep1_def)

lemma Email_nonempty: "\<not> re_match Email_regex []"
  by (simp add: re_match_def Email_regex_def Rep1_def Lit_def Opt_def)

lemma Website_nonempty: "\<not> re_match Website_url_regex []"
  by (simp add: re_match_def Website_url_regex_def Rep1_def Lit_def Opt_def)

lemma Phone_nonempty: "\<not> re_match PhoneNumber_regex []"
  by (simp add: re_match_def PhoneNumber_regex_def eval_nat_numeral)

lemma lc_nat: "(of_char (lower_char c) :: nat) =
   (let n = (of_char c :: nat) in if (65 \<le> n \<and> n \<le> 90) \<or> (192 \<le> n \<and> n \<le> 222 \<and> n \<noteq> 215) then n + 32 else n)"
proof -
  have "(of_char c :: nat) < 256" by simp
  then show ?thesis by (auto simp: lower_char_def Let_def)
qed

lemma lower_char_ascii_letter:
  assumes "97 \<le> (of_char l :: nat)" "(of_char l :: nat) \<le> 122" "(of_char u :: nat) + 32 = of_char l"
  shows "lower_char c = l \<longleftrightarrow> c = l \<or> c = u"
proof -
  have "lower_char c = l \<longleftrightarrow> (of_char (lower_char c) :: nat) = of_char l"
    by simp
  also have "\<dots> \<longleftrightarrow> (of_char c :: nat) = of_char l \<or> (of_char c :: nat) = of_char u"
    unfolding lc_nat Let_def using assms by presburger
  also have "\<dots> \<longleftrightarrow> c = l \<or> c = u" by simp
  finally show ?thesis .
qed


lemma PhoneNumber_init_iff:
  "PhoneNumber_init v = Inr p \<longleftrightarrow>
     p = PhoneNumber_obj v \<and>
     ((length v = 10 \<and> (\<forall>c \<in> set v. py_isdecimal c))
      \<or> (\<exists>w. v = w @ [NL] \<and> length w = 10 \<and> (\<forall>c \<in> set w. py_isdecimal c)))"
  by (auto simp: PhoneNumber_init_def re_match_lang PhoneNumber_regex_def lang_Times_Cls)


lemma lower_char_present:
  assumes "l \<in> set ''present''"
  shows "lower_char c = l \<longleftrightarrow> ci_letter c l"
proof -
  have "lower_char c = l \<longleftrightarrow> (of_char (lower_char c) :: nat) = of_char l"
    by simp
  also have "\<dots> \<longleftrightarrow> (of_char c :: nat) = of_char l \<or> (of_char c :: nat) + 32 = of_char l"
    unfolding lc_nat Let_def using assms by auto
  also have "\<dots> \<longleftrightarrow> ci_letter c l" by (simp add: ci_letter_def)
  finally show ?thesis .
qed

lemma map_eq_list_all2: "map f xs = ys \<longleftrightarrow> list_all2 (\<lambda>x y. f x = y) xs ys"
  by (induction xs arbitrary: ys) (auto simp: list_all2_Cons1)

lemma lower_present: "lower v = ''present'' \<longleftrightarrow> list_all2 ci_letter v ''present''"
proof -
  have "list_all2 (\<lambda>c l. lower_char c = l) v ''present'' \<longleftrightarrow> list_all2 ci_letter v ''present''"
    by (rule list.rel_cong) (auto simp: lower_char_present)
  then show ?thesis by (simp add: lower_def map_eq_list_all2)
qed

lemma esc_loop_acc: "esc_loop s out = out @ map (\<lambda>ch. case map_of LATEX_SPECIALS ch of None \<Rightarrow> [ch] | Some r \<Rightarrow> r) s"
  by (induction s arbitrary: out) simp_all

lemma table_is_spec: "(case map_of LATEX_SPECIALS ch of None \<Rightarrow> [ch] | Some r \<Rightarrow> r) = spec_esc_char ch"
  by (simp add: LATEX_SPECIALS_def spec_esc_char_def)

lemma esc_Some: "esc (Some s) = concat (map spec_esc_char s)"
  by (simp add: esc_def esc_loop_acc table_is_spec)

text \<open>
  Claim C2. \<open>esc\<close> is a total function on strings (it has no failing branch) and works
  character by character: the result is the concatenation, over the characters of the
  input, of the escaped equivalent of each of the ten characters of the table and of
  the character itself for every other one.
\<close>
theorem esc_total_per_character:
  "esc None = [] \<and> esc (Some s) = concat (map spec_esc_char s)
   \<and> esc (Some (s @ t)) = esc (Some s) @ esc (Some t)
   \<and> spec_esc_char CHR ''&'' = BS # ''&''
   \<and> spec_esc_char BS = BS # ''textbackslash{}''
   \<and> (c \<notin> set ''&%$#_{}~^'' \<and> c \<noteq> BS \<longrightarrow> spec_esc_char c = [c])"
  by (simp add: esc_Some) (simp add: esc_def spec_esc_char_def)

text \<open>
  Claim C2, witness: a text with four characters of the table and three others.
\<close>
theorem esc_total_per_character_witness:
  "esc (Some ''a&b_c{}'') = ''a'' @ BS # ''&b'' @ BS # ''_c'' @ BS # ''{'' @ BS # ''}''
   \<and> spec_esc_char CHR ''a'' = ''a''"
  using esc_total_per_character [of "''a&b_c{}''" "[]" "CHR ''a''"]
  by (simp add: spec_esc_char_def)

lemma diverges_append: "diverges r n \<Longrightarrow> diverges (r @ t) n"
  by (induction r n rule: diverges.induct) auto

lemma bs_clear_append: "bs_clear n a \<Longrightarrow> bs_clear n b \<Longrightarrow> bs_clear n (a @ b)"
  by (induction a) (auto simp: diverges_append)

lemma diverges_not_prefix: "diverges r n \<Longrightarrow> \<not> prefix n r"
  by (induction r n rule: diverges.induct) auto

lemma bs_clear_no_sublist: "bs_clear n s \<Longrightarrow> \<not> sublist (BS # n) s"
  by (induction s) (auto simp: sublist_Cons_right dest: diverges_not_prefix)

lemma bs_clear_esc_char:
  assumes "a \<notin> set ''&%$#_{}t''"
  shows "bs_clear (a # n) (spec_esc_char c)"
  using assms by (auto simp: spec_esc_char_def)

lemma bs_clear_esc:
  assumes "a \<notin> set ''&%$#_{}t''"
  shows "bs_clear (a # n) (esc (Some s))"
  unfolding esc_Some using assms
  by (induction s) (simp_all add: bs_clear_append bs_clear_esc_char del: set_simps)


text \<open>
  Without a URL (\<open>None\<close> or the empty string) \<open>href\<close> returns the escaped label and
  nothing else: no hyperlink construct occurs in it, and a project without a link shows
  its escaped name in bold only. With a URL that is a string the URL is copied as it is
  and only the label is escaped.
\<close>
lemma href_plain_text_without_url:
  "href UrlNone label blue = Inr (esc (Some label))
   \<and> href (UrlStr []) label blue = Inr (esc (Some label))
   \<and> \<not> sublist (BS # ''href'') (esc (Some label))
   \<and> (Project_link p = None \<longrightarrow>
        project_left p =
          Inr (''{'' @ BS # ''textcolor{vibrantblue}'' @ BS # ''faShareSquare '' @ BS # ''hspace{0.5mm} ''
               @ BS # ''textbf{'' @ esc (Some (Project_name p)) @ ''}} $|$ '' @ BS # ''emph{''
               @ BS # ''textbf{'' @ esc (Some (join '', '' (Project_skills p))) @ ''}}''))
   \<and> (u \<noteq> [] \<longrightarrow>
        href (UrlStr u) label True =
          Inr (BS # ''href{'' @ u @ ''}{'' @ BS # ''textcolor{vibrantblue}{'' @ esc (Some label) @ ''}}'')
        \<and> href (UrlStr u) label False =
          Inr (BS # ''href{'' @ u @ ''}{'' @ esc (Some label) @ ''}''))"
proof -
  have "bs_clear ''href'' (esc (Some label))"
    by (rule bs_clear_esc) simp
  then have "\<not> sublist (BS # ''href'') (esc (Some label))"
    by (rule bs_clear_no_sublist)
  then show ?thesis
    by (simp add: project_left_def bind_err_def fa_def)
qed

text \<open>
  A URL with an underscore stays as it is while the label is escaped, and a project
  without a link has no hyperlink.
\<close>
lemma href_plain_text_without_url_example:
  "href (UrlStr ''https://a.b/x_y'') ''A&B'' True =
     Inr (BS # ''href{https://a.b/x_y}{'' @ BS # ''textcolor{vibrantblue}{A'' @ BS # ''&B}}'')
   \<and> project_left \<lparr>Project_name = ''My_App'', Project_skills = [''C#'', ''Go''],
         Project_description = [\<lparr>BulletPoint_text = ''x''\<rparr>], Project_link = None\<rparr> =
     Inr (''{'' @ BS # ''textcolor{vibrantblue}'' @ BS # ''faShareSquare '' @ BS # ''hspace{0.5mm} ''
          @ BS # ''textbf{My'' @ BS # ''_App}} $|$ '' @ BS # ''emph{''
          @ BS # ''textbf{C'' @ BS # ''#, Go}}'')"
  using href_plain_text_without_url [of "''A&B''" True
      "\<lparr>Project_name = ''My_App'', Project_skills = [''C#'', ''Go''],
         Project_description = [\<lparr>BulletPoint_text = ''x''\<rparr>], Project_link = None\<rparr>"
      "''https://a.b/x_y''"]
  by (simp add: esc_Some spec_esc_char_def)

text \<open>
  Claim C3. Ten decimal digits followed by a line feed are eleven characters, and the
  constructor accepts them: \<open>$\<close> also matches before a final newline.
\<close>
theorem PhoneNumber_accepts_trailing_newline:
  "PhoneNumber_init (''1234567890'' @ [NL]) = Inr (PhoneNumber_obj (''1234567890'' @ [NL]))
   \<and> length (PhoneNumber_str (PhoneNumber_obj (''1234567890'' @ [NL]))) = 11"
  by (simp add: PhoneNumber_init_iff py_isdecimal_def)

text \<open>
  Claim C6, counterexample: a header with the empty name is constructed.
\<close>
theorem Header_init_empty_name: "Header_init [] None None None None None \<noteq> Inl ValueError"
  by (simp add: Header_init_def)

text \<open>
  Claim C6, amended: the constructor of \<open>Header\<close> checks nothing; for every name, empty
  or not, and every combination of contact fields it returns the header with these
  fields.
\<close>
theorem Header_init_never_fails:
  "Header_init name email number linkedin portfolio github =
     Inr \<lparr>Header_name = name, Header_email = email, Header_number = number,
          Header_linkedin = linkedin, Header_portfolio = portfolio, Header_github = github\<rparr>"
  by (simp add: Header_init_def)



text \<open>
  Claim C9. A string that is \<open>present\<close> up to the case of its letters, that is, one
  that equals \<open>present\<close> after lowercasing, gives the date whose string form is the
  lower-case \<open>present\<close>; any other string is kept as it is when \<open>strptime\<close> parses
  it with the format \<open>%d-%m-%Y\<close> and is rejected with a ValueError otherwise.
\<close>
theorem Date_init_present:
  "(list_all2 ci_letter v ''present'' \<longleftrightarrow> lower v = ''present'')
   \<and> (lower v = ''present'' \<longrightarrow> Date_init v = Inr (Date_obj ''present''))
   \<and> (lower v \<noteq> ''present'' \<longrightarrow>
        (strptime v = None \<longrightarrow> Date_init v = Inl ValueError)
        \<and> (strptime v \<noteq> None \<longrightarrow> Date_init v = Inr (Date_obj v)))"
  by (auto simp: lower_present Date_init_def)

lemma strptime_eval:
  "strptime ''01-01-2022'' = Some (2022, 1, 1, 0, 0, 0, 0)"
  by (simp add: strptime_def format_regex_match_def group_d_def group_m_def group_Y_def
      dash_def int_of_digits_def py_isdecimal_def digit_val_def days_in_month_def)

text \<open>
  Claim C9, witness: two spellings of \<open>present\<close>, a calendar date, a day that does not
  exist and a word.
\<close>
theorem Date_init_present_witness:
  "Date_init ''PRESENT'' = Inr (Date_obj ''present'')
   \<and> Date_init ''Present'' = Inr (Date_obj ''present'')
   \<and> Date_init ''01-01-2022'' = Inr (Date_obj ''01-01-2022'')
   \<and> Date_init ''31-02-2022'' = Inl ValueError
   \<and> Date_init ''someday'' = Inl ValueError"
proof -
  have a: "lower ''PRESENT'' = ''present''" "lower ''Present'' = ''present''"
    by code_simp+
  have b: "lower ''01-01-2022'' \<noteq> ''present''" "lower ''31-02-2022'' \<noteq> ''present''"
    "lower ''someday'' \<noteq> ''present''"
    by (simp_all add: lower_present ci_letter_def)
  have c: "strptime ''01-01-2022'' \<noteq> None" by (simp add: strptime_eval)
  have d: "strptime ''31-02-2022'' = None" "strptime ''someday'' = None"
    by (simp_all add: strptime_def format_regex_match_def group_d_def group_m_def group_Y_def
      dash_def int_of_digits_def py_isdecimal_def digit_val_def days_in_month_def is_leap_def)
  show ?thesis
    using Date_init_present [of "''PRESENT''"] Date_init_present [of "''Present''"]
      Date_init_present [of "''01-01-2022''"] Date_init_present [of "''31-02-2022''"]
      Date_init_present [of "''someday''"] a b c d
    by simp
qed

lemma strptime_present: "strptime ''present'' = None"
  by (simp add: strptime_def format_regex_match_def group_d_def)

lemma Date_init_present_lit: "Date_init ''present'' = Inr (Date_obj ''present'')"
  by (simp add: Date_init_def lower_present ci_letter_def)

lemma to_datetime_calendar:
  "strptime (Date_str d) = Some s \<Longrightarrow> to_datetime clk d n = (Inr s, n)"
  by (auto simp: to_datetime_def strptime_present)

lemma to_datetime_present:
  "Date_str d = ''present'' \<Longrightarrow> to_datetime clk d n = (Inr (clk n), Suc n)"
  by (simp add: to_datetime_def today_def)

lemma Date_valid_cases:
  assumes "Date_init (Date_str d) = Inr d"
  shows "Date_str d = ''present'' \<or> (\<exists>t. strptime (Date_str d) = Some t)"
  using assms by (cases d) (auto simp: Date_init_def split: if_splits option.splits)

lemma Experience_init_calendar:
  assumes mono: "\<forall>i j. i \<le> j \<longrightarrow> clk i \<le> clk j"
    and fields: "position \<noteq> []" "company \<noteq> []" "description \<noteq> []"
    and start: "strptime (Date_str start_date) = Some s"
    and end_ok: "case end_date of None \<Rightarrow> True | Some d \<Rightarrow> Date_init (Date_str d) = Inr d"
  shows "fst (Experience_init clk position company description start_date end_date n) =
     (if spec_rejects (clk n) start_date end_date then Inl ValueError
      else Inr \<lparr>Experience_position = position, Experience_company = company,
                Experience_description = description, Experience_start_date = start_date,
                Experience_end_date =
                  (case end_date of None \<Rightarrow> Date_obj ''present'' | Some d \<Rightarrow> d)\<rparr>)"
proof -
  define e where "e = (case end_date of None \<Rightarrow> Date_obj ''present'' | Some d \<Rightarrow> d)"
  have e_init: "(case end_date of None \<Rightarrow> Date_init ''present'' | Some d \<Rightarrow> Inr d) = Inr e"
    by (simp add: e_def Date_init_present_lit split: option.splits)
  have e_valid: "Date_init (Date_str e) = Inr e"
    using end_ok by (simp add: e_def Date_init_present_lit split: option.splits)
  have s_not_present: "Date_str start_date \<noteq> ''present''"
    using start by (auto simp: strptime_present)
  have step: "clk n \<le> clk (Suc n)" using mono by simp
  from Date_valid_cases [OF e_valid] show ?thesis
  proof
    assume p: "Date_str e = ''present''"
    have "s > clk (Suc n) \<Longrightarrow> s \<ge> clk n" using step by simp
    then show ?thesis
      using fields p s_not_present start e_init
      by (auto simp: Experience_init_def to_datetime_calendar [OF start] to_datetime_present
          today_def spec_rejects_def spec_instant_def e_def [symmetric])
  next
    assume "\<exists>t. strptime (Date_str e) = Some t"
    then obtain t where t: "strptime (Date_str e) = Some t" by blast
    then have np: "Date_str e \<noteq> ''present''" by (auto simp: strptime_present)
    show ?thesis
      using fields np s_not_present start e_init t
      by (auto simp: Experience_init_def to_datetime_calendar [OF start]
          to_datetime_calendar [OF t]
          today_def spec_rejects_def spec_instant_def e_def [symmetric])
  qed
qed

lemmas strptime_eval_defs = strptime_def format_regex_match_def group_d_def group_m_def
  group_Y_def dash_def int_of_digits_def py_isdecimal_def digit_val_def days_in_month_def
  is_leap_def

lemma clock_2026_mono: "\<forall>i j. i \<le> j \<longrightarrow> clock_2026 i \<le> clock_2026 j"
  by (simp add: clock_2026_def)

text \<open>
  With the clock of 3 November 2026 an experience from 2022 to 2023 is accepted, one
  that starts and ends on the same calendar day is rejected, and so is one that starts
  tomorrow.
\<close>
lemma Experience_init_calendar_examples:
  "fst (Experience_init clock_2026 ''Dev'' ''Co'' [\<lparr>BulletPoint_text = ''Did X''\<rparr>]
          (Date_obj ''01-01-2022'') (Some (Date_obj ''01-01-2023'')) 0) =
     Inr \<lparr>Experience_position = ''Dev'', Experience_company = ''Co'',
          Experience_description = [\<lparr>BulletPoint_text = ''Did X''\<rparr>],
          Experience_start_date = Date_obj ''01-01-2022'',
          Experience_end_date = Date_obj ''01-01-2023''\<rparr>"
  "fst (Experience_init clock_2026 ''Dev'' ''Co'' [\<lparr>BulletPoint_text = ''Did X''\<rparr>]
          (Date_obj ''01-01-2023'') (Some (Date_obj ''01-01-2023'')) 0) = Inl ValueError"
  "fst (Experience_init clock_2026 ''Dev'' ''Co'' [\<lparr>BulletPoint_text = ''Did X''\<rparr>]
          (Date_obj ''04-11-2026'') None 0) = Inl ValueError"
proof -
  have s1: "strptime (Date_str (Date_obj ''01-01-2022'')) = Some (2022, 1, 1, 0, 0, 0, 0)"
    and s2: "strptime (Date_str (Date_obj ''01-01-2023'')) = Some (2023, 1, 1, 0, 0, 0, 0)"
    and s3: "strptime (Date_str (Date_obj ''04-11-2026'')) = Some (2026, 11, 4, 0, 0, 0, 0)"
    by (simp_all add: strptime_eval_defs)
  have d: "Date_init ''01-01-2023'' = Inr (Date_obj ''01-01-2023'')"
    using s2 by (simp add: Date_init_def lower_present ci_letter_def)
  have e1: "case Some (Date_obj ''01-01-2023'') of None \<Rightarrow> True
            | Some d \<Rightarrow> Date_init (Date_str d) = Inr d"
    and e2: "case None :: Date option of None \<Rightarrow> True | Some d \<Rightarrow> Date_init (Date_str d) = Inr d"
    by (simp_all add: d)
  have ne: "''Dev'' \<noteq> []" "''Co'' \<noteq> []" "[\<lparr>BulletPoint_text = ''Did X''\<rparr>] \<noteq> []"
    by simp_all
  have r1: "\<not> spec_rejects (clock_2026 0) (Date_obj ''01-01-2022'') (Some (Date_obj ''01-01-2023''))"
    and r2: "spec_rejects (clock_2026 0) (Date_obj ''01-01-2023'') (Some (Date_obj ''01-01-2023''))"
    and r3: "spec_rejects (clock_2026 0) (Date_obj ''04-11-2026'') None"
    using s1 s2 s3 by (simp_all add: spec_rejects_def spec_instant_def clock_2026_def)
  show "fst (Experience_init clock_2026 ''Dev'' ''Co'' [\<lparr>BulletPoint_text = ''Did X''\<rparr>]
          (Date_obj ''01-01-2022'') (Some (Date_obj ''01-01-2023'')) 0) =
     Inr \<lparr>Experience_position = ''Dev'', Experience_company = ''Co'',
          Experience_description = [\<lparr>BulletPoint_text = ''Did X''\<rparr>],
          Experience_start_date = Date_obj ''01-01-2022'',
          Experience_end_date = Date_obj ''01-01-2023''\<rparr>"
    using Experience_init_calendar [OF clock_2026_mono ne s1 e1, of 0] r1 by simp
  show "fst (Experience_init clock_2026 ''Dev'' ''Co'' [\<lparr>BulletPoint_text = ''Did X''\<rparr>]
          (Date_obj ''01-01-2023'') (Some (Date_obj ''01-01-2023'')) 0) = Inl ValueError"
    using Experience_init_calendar [OF clock_2026_mono ne s2 e1, of 0] r2 by simp
  show "fst (Experience_init clock_2026 ''Dev'' ''Co'' [\<lparr>BulletPoint_text = ''Did X''\<rparr>]
          (Date_obj ''04-11-2026'') None 0) = Inl ValueError"
    using Experience_init_calendar [OF clock_2026_mono ne s3 e2, of 0] r3 by simp
qed

text \<open>
  Claim C4. An experience whose start is \<open>present\<close> and whose end is omitted (or
  \<open>present\<close>) starts and ends at the same moment, so its start is not before its end;
  yet the constructor returns it when the clock advances between the two readings it
  takes for start and end, and raises a ValueError only when both readings are the
  same instant. A start and an end on the same calendar day are rejected.
\<close>
theorem Experience_present_start_accepted:
  "spec_rejects (clock_2026 0) (Date_obj ''present'') None
   \<and> fst (Experience_init clock_2026 ''Dev'' ''Co'' [\<lparr>BulletPoint_text = ''Did X''\<rparr>]
            (Date_obj ''present'') None 0) =
       Inr \<lparr>Experience_position = ''Dev'', Experience_company = ''Co'',
            Experience_description = [\<lparr>BulletPoint_text = ''Did X''\<rparr>],
            Experience_start_date = Date_obj ''present'',
            Experience_end_date = Date_obj ''present''\<rparr>
   \<and> fst (Experience_init clock_2026 ''Dev'' ''Co'' [\<lparr>BulletPoint_text = ''Did X''\<rparr>]
            (Date_obj ''present'') (Some (Date_obj ''present'')) 0) =
       Inr \<lparr>Experience_position = ''Dev'', Experience_company = ''Co'',
            Experience_description = [\<lparr>BulletPoint_text = ''Did X''\<rparr>],
            Experience_start_date = Date_obj ''present'',
            Experience_end_date = Date_obj ''present''\<rparr>
   \<and> fst (Experience_init (frozen (2026, 11, 3, 12, 0, 0, 0)) ''Dev'' ''Co''
            [\<lparr>BulletPoint_text = ''Did X''\<rparr>] (Date_obj ''present'') None 0) = Inl ValueError
   \<and> fst (Experience_init clock_2026 ''Dev'' ''Co'' [\<lparr>BulletPoint_text = ''Did X''\<rparr>]
            (Date_obj ''01-01-2023'') (Some (Date_obj ''01-01-2023'')) 0) = Inl ValueError"
proof -
  have a: "spec_rejects (clock_2026 0) (Date_obj ''present'') None"
    by (simp add: spec_rejects_def spec_instant_def)
  have b: "fst (Experience_init clock_2026 ''Dev'' ''Co'' [\<lparr>BulletPoint_text = ''Did X''\<rparr>]
            (Date_obj ''present'') None 0) =
       Inr \<lparr>Experience_position = ''Dev'', Experience_company = ''Co'',
            Experience_description = [\<lparr>BulletPoint_text = ''Did X''\<rparr>],
            Experience_start_date = Date_obj ''present'',
            Experience_end_date = Date_obj ''present''\<rparr>"
    by (simp add: Experience_init_def Date_init_present_lit to_datetime_def today_def
        clock_2026_def)
  have c: "fst (Experience_init clock_2026 ''Dev'' ''Co'' [\<lparr>BulletPoint_text = ''Did X''\<rparr>]
            (Date_obj ''present'') (Some (Date_obj ''present'')) 0) =
       Inr \<lparr>Experience_position = ''Dev'', Experience_company = ''Co'',
            Experience_description = [\<lparr>BulletPoint_text = ''Did X''\<rparr>],
            Experience_start_date = Date_obj ''present'',
            Experience_end_date = Date_obj ''present''\<rparr>"
    by (simp add: Experience_init_def to_datetime_def today_def clock_2026_def)
  have d: "fst (Experience_init (frozen (2026, 11, 3, 12, 0, 0, 0)) ''Dev'' ''Co''
            [\<lparr>BulletPoint_text = ''Did X''\<rparr>] (Date_obj ''present'') None 0) = Inl ValueError"
    by (simp add: Experience_init_def Date_init_present_lit to_datetime_def today_def
        frozen_def)
  show ?thesis
    using a b c d Experience_init_calendar_examples(2) by simp
qed

lemma bind_err_simps [simp]:
  "bind_err (Inr x) f = f x"
  "bind_err (Inl e) f = Inl e"
  by (simp_all add: bind_err_def)

lemma traverse_str_of: "traverse str_of (map JStr xs) = Inr xs"
  by (induction xs) simp_all

lemma Email_init_nonempty: "Email_init v = Inr x \<Longrightarrow> v \<noteq> [] \<and> x = Email_obj v"
  using Email_nonempty by (auto simp: Email_init_def split: if_splits)

lemma PhoneNumber_init_nonempty: "PhoneNumber_init v = Inr x \<Longrightarrow> v \<noteq> [] \<and> x = PhoneNumber_obj v"
  using Phone_nonempty by (auto simp: PhoneNumber_init_def split: if_splits)

lemma Website_init_nonempty: "Website_init v = Inr x \<Longrightarrow> v \<noteq> [] \<and> x = Website_obj v"
  using Website_nonempty by (auto simp: Website_init_def split: if_splits)

lemma LinkedIn_init_nonempty: "LinkedIn_init v = Inr x \<Longrightarrow> v \<noteq> []"
  by (auto simp: LinkedIn_init_def startswith_def split: if_splits)

lemma GitHub_init_nonempty: "GitHub_init v = Inr x \<Longrightarrow> v \<noteq> []"
  by (auto simp: GitHub_init_def startswith_def split: if_splits)

lemma strptime_nonempty: "strptime [] = None"
  by (simp add: strptime_def format_regex_match_def group_d_def)

lemma validated_Date_nonempty: "validated_Date d \<Longrightarrow> Date_str d \<noteq> []"
  by (cases d) (auto simp: validated_Date_def Date_init_def strptime_nonempty
      split: if_splits option.splits)

lemma opt_field_roundtrip:
  assumes "map_of kvs k = Some (opt_str f x)"
    and "case x of None \<Rightarrow> True | Some v \<Rightarrow> f v \<noteq> [] \<and> mk (JStr (f v)) = Inr v"
  shows "opt_field (JDict kvs) k mk = Inr x"
  using assms by (cases x) (simp_all add: opt_field_def opt_str_def)

lemma from_dict_header_roundtrip:
  assumes "validated_Header (Resume_header d)"
  shows "from_dict_header (to_dict d) = Inr (Resume_header d)"
proof -
  define h where "h = Resume_header d"
  have v: "validated_Header h" using assms by (simp add: h_def)
  have e: "opt_field (Header_to_dict h) ''email'' Email_of = Inr (Header_email h)"
    unfolding Header_to_dict_def
    by (rule opt_field_roundtrip) (use v in \<open>auto simp: validated_Header_def
        dest: Email_init_nonempty split: option.splits\<close>)
  have n: "opt_field (Header_to_dict h) ''number'' PhoneNumber_of = Inr (Header_number h)"
    unfolding Header_to_dict_def
    by (rule opt_field_roundtrip) (use v in \<open>auto simp: validated_Header_def
        dest: PhoneNumber_init_nonempty split: option.splits\<close>)
  have l: "opt_field (Header_to_dict h) ''linkedin'' LinkedIn_of = Inr (Header_linkedin h)"
    unfolding Header_to_dict_def
    by (rule opt_field_roundtrip) (use v in \<open>auto simp: validated_Header_def
        dest: LinkedIn_init_nonempty split: option.splits\<close>)
  have p: "opt_field (Header_to_dict h) ''portfolio'' Website_of = Inr (Header_portfolio h)"
    unfolding Header_to_dict_def
    by (rule opt_field_roundtrip) (use v in \<open>auto simp: validated_Header_def
        dest: Website_init_nonempty split: option.splits\<close>)
  have g: "opt_field (Header_to_dict h) ''github'' GitHub_of = Inr (Header_github h)"
    unfolding Header_to_dict_def
    by (rule opt_field_roundtrip) (use v in \<open>auto simp: validated_Header_def
        dest: GitHub_init_nonempty split: option.splits\<close>)
  have nm: "dict_get (Header_to_dict h) ''name'' (JDict []) = Inr (JStr (Header_name h))"
    by (simp add: Header_to_dict_def)
  have hd: "dict_get (to_dict d) ''header'' (JDict []) = Inr (Header_to_dict h)"
    by (simp add: to_dict_def h_def)
  show ?thesis
    unfolding from_dict_header_def hd bind_err_simps nm str_of.simps e n l p g Header_init_def
    by (simp add: h_def)
qed


lemma skill_types_roundtrip:
  assumes "list_all validated_SkillType sts" and "\<forall>xs. set (mkset xs) = set xs"
  shows "traverse (skill_type_from_dict mkset)
           (map (\<lambda>st. JDict [(''name'', JStr (SkillType_name st)),
                              (''skills'', JList (map JStr (SkillType_skills st)))]) sts)
         = Inr (map (reorder mkset) sts)"
  using assms(1)
proof (induction sts)
  case Nil
  then show ?case by simp
next
  case (Cons st sts)
  from Cons.prems have ne: "SkillType_skills st \<noteq> []"
    by (auto simp: validated_SkillType_def SkillType_init_def split: if_splits)
  then have "set (mkset (SkillType_skills st)) \<noteq> {}" using assms(2) by simp
  then have ne': "mkset (SkillType_skills st) \<noteq> []" by auto
  have "skill_type_from_dict mkset
          (JDict [(''name'', JStr (SkillType_name st)),
                  (''skills'', JList (map JStr (SkillType_skills st)))]) = Inr (reorder mkset st)"
    using ne' by (simp add: skill_type_from_dict_def traverse_str_of SkillType_init_def reorder_def)
  then show ?case using Cons by simp
qed

lemma reorder_same:
  assumes "\<forall>xs. set (mkset xs) = set xs"
  shows "list_all2 same_skill_group sts (map (reorder mkset) sts)"
  using assms by (induction sts) (simp_all add: same_skill_group_def reorder_def)

lemma from_dict_skills_roundtrip:
  assumes "case Resume_skills d of None \<Rightarrow> True
           | Some s \<Rightarrow> list_all validated_SkillType (SkillSection_skill_types s)"
    and "\<forall>xs. set (mkset xs) = set xs"
  shows "from_dict_skills mkset (to_dict d) =
           Inr (map_option (\<lambda>s. \<lparr>SkillSection_skill_types =
                                    map (reorder mkset) (SkillSection_skill_types s)\<rparr>)
                  (Resume_skills d))"
proof (cases "Resume_skills d")
  case None
  then show ?thesis by (simp add: from_dict_skills_def to_dict_def opt_dict_def)
next
  case (Some s)
  with assms(1) have v: "list_all validated_SkillType (SkillSection_skill_types s)" by simp
  have g: "dict_get (to_dict d) ''skills'' JNull = Inr (SkillSection_to_dict s)"
    and i: "dict_item (to_dict d) ''skills'' = Inr (SkillSection_to_dict s)"
    using Some by (simp_all add: to_dict_def opt_dict_def)
  have t: "truthy (SkillSection_to_dict s)" by (simp add: SkillSection_to_dict_def)
  show ?thesis
    unfolding from_dict_skills_def g i bind_err_simps using t Some
    by (simp add: SkillSection_to_dict_def skill_types_roundtrip [OF v assms(2)]
        SkillSection_init_def)
qed

lemma bullets_roundtrip:
  assumes "list_all validated_BulletPoint bs"
  shows "traverse (\<lambda>bp. bind_err (dict_item bp ''text'') BulletPoint_of)
           (map BulletPoint_to_dict bs) = Inr bs"
  using assms
  by (induction bs) (simp_all add: BulletPoint_to_dict_def validated_BulletPoint_def)

lemma bullets_from_dict_roundtrip:
  assumes "list_all validated_BulletPoint bs"
    and "map_of kvs ''description'' = Some (JList (map BulletPoint_to_dict bs))"
  shows "bullets_from_dict (JDict kvs) = Inr bs"
  using assms by (simp add: bullets_from_dict_def bullets_roundtrip)

lemma to_datetime_state: "n \<le> snd (to_datetime clk d n)"
  by (simp add: to_datetime_def today_def split: option.splits)

lemma Experience_init_state:
  "n \<le> snd (Experience_init clk position company description start_date end_date n)"
proof -
  have a: "\<And>d m. m \<le> snd (to_datetime clk d m)" by (rule to_datetime_state)
  show ?thesis
    unfolding Experience_init_def today_def
    by (auto split: sum.splits prod.splits if_splits option.splits
        dest!: arg_cong [where f = snd] intro: order_trans
        simp: to_datetime_def today_def)
qed


lemma Date_valid_calendar:
  assumes "validated_Date d" and "Date_str d \<noteq> ''present''"
  obtains s where "strptime (Date_str d) = Some s"
proof (cases "strptime (Date_str d)")
  case None
  with assms have False
    by (cases d) (simp add: validated_Date_def Date_init_def split: if_splits)
  then show ?thesis ..
next
  case (Some s)
  then show ?thesis by (rule that)
qed

lemma spec_rejects_calendar:
  assumes "strptime (Date_str start_date) = Some s"
  shows "spec_rejects now start_date end_date \<longleftrightarrow>
     (case spec_instant now (case end_date of None \<Rightarrow> Date_obj ''present'' | Some d \<Rightarrow> d) of
        None \<Rightarrow> True | Some e \<Rightarrow> e \<le> s \<or> now < s)"
proof -
  have "Date_str start_date \<noteq> ''present''"
    using assms strptime_present by (cases "Date_str start_date = ''present''") simp_all
  then show ?thesis
    by (simp add: spec_rejects_def spec_instant_def assms split: option.splits)
qed

lemma spec_rejects_later:
  assumes s: "strptime (Date_str start_date) = Some s"
    and nr: "\<not> spec_rejects now start_date end_date" and le: "now \<le> now'"
  shows "\<not> spec_rejects now' start_date end_date"
proof -
  define ed where "ed = (case end_date of None \<Rightarrow> Date_obj ''present'' | Some d \<Rightarrow> d)"
  show ?thesis
  proof (cases "Date_str ed = ''present''")
    case True
    from nr have "s < now"
      by (simp add: spec_rejects_calendar [OF s] ed_def [symmetric] spec_instant_def True not_le)
    then have "s < now'" using le by (rule less_le_trans)
    then show ?thesis
      by (simp add: spec_rejects_calendar [OF s] ed_def [symmetric] spec_instant_def True
          not_le not_less less_imp_le)
  next
    case False
    show ?thesis
    proof (cases "strptime (Date_str ed)")
      case None
      with nr False show ?thesis
        by (simp add: spec_rejects_calendar [OF s] ed_def [symmetric] spec_instant_def)
    next
      case (Some t)
      from nr have "s < t" and "s \<le> now"
        by (simp_all add: spec_rejects_calendar [OF s] ed_def [symmetric] spec_instant_def
            False Some not_le not_less)
      then have "s < t" and "s \<le> now'" using le by (simp_all add: order_trans [of s now now'])
      then show ?thesis
        by (simp add: spec_rejects_calendar [OF s] ed_def [symmetric] spec_instant_def
            False Some not_le not_less)
    qed
  qed
qed

lemma Experience_init_later:
  assumes v: "validated_Experience now e"
    and cal: "Date_str (Experience_start_date e) \<noteq> ''present''"
    and mono: "\<forall>i j. i \<le> j \<longrightarrow> clk i \<le> clk j"
    and later: "now \<le> clk n"
  shows "fst (Experience_init clk (Experience_position e) (Experience_company e)
                (Experience_description e) (Experience_start_date e)
                (Some (Experience_end_date e)) n) = Inr e"
proof -
  let ?init = "\<lambda>c m. fst (Experience_init c (Experience_position e) (Experience_company e)
                (Experience_description e) (Experience_start_date e)
                (Some (Experience_end_date e)) m)"
  from v have ok: "?init (frozen now) 0 = Inr e"
    and vs: "validated_Date (Experience_start_date e)"
    and ve: "validated_Date (Experience_end_date e)"
    by (simp_all add: validated_Experience_def)
  from ok have ne: "Experience_position e \<noteq> []" "Experience_company e \<noteq> []"
    "Experience_description e \<noteq> []"
    by (auto simp: Experience_init_def split: if_splits)
  from vs cal obtain s where s: "strptime (Date_str (Experience_start_date e)) = Some s"
    by (rule Date_valid_calendar)
  have eo: "case Some (Experience_end_date e) of None \<Rightarrow> True
            | Some d \<Rightarrow> Date_init (Date_str d) = Inr d"
    using ve by (simp add: validated_Date_def)
  have fm: "\<forall>i j. i \<le> j \<longrightarrow> frozen now i \<le> frozen now j" by (simp add: frozen_def)
  have at_now: "?init (frozen now) 0 =
      (if spec_rejects (frozen now 0) (Experience_start_date e) (Some (Experience_end_date e))
       then Inl ValueError
       else Inr \<lparr>Experience_position = Experience_position e,
                 Experience_company = Experience_company e,
                 Experience_description = Experience_description e,
                 Experience_start_date = Experience_start_date e,
                 Experience_end_date = Experience_end_date e\<rparr>)"
    using Experience_init_calendar [OF fm ne s eo, of 0] by simp
  with ok have nr: "\<not> spec_rejects now (Experience_start_date e) (Some (Experience_end_date e))"
    by (simp add: frozen_def split: if_splits)
  have nr': "\<not> spec_rejects (clk n) (Experience_start_date e) (Some (Experience_end_date e))"
    by (rule spec_rejects_later [OF s nr later])
  show ?thesis
    using Experience_init_calendar [OF mono ne s eo, of n] nr' by simp
qed

lemma experience_from_dict_to_dict:
  assumes "list_all validated_BulletPoint (Experience_description e)"
    and "validated_Date (Experience_start_date e)"
    and "validated_Date (Experience_end_date e)"
  shows "experience_from_dict clk (Experience_to_dict e) n =
           Experience_init clk (Experience_position e) (Experience_company e)
             (Experience_description e) (Experience_start_date e)
             (Some (Experience_end_date e)) n"
proof -
  have b: "bullets_from_dict (Experience_to_dict e) = Inr (Experience_description e)"
    unfolding Experience_to_dict_def
    by (rule bullets_from_dict_roundtrip [OF assms(1)]) simp
  have p: "dict_item (Experience_to_dict e) ''position'' = Inr (JStr (Experience_position e))"
    and c: "dict_item (Experience_to_dict e) ''company'' = Inr (JStr (Experience_company e))"
    and sd: "dict_item (Experience_to_dict e) ''start_date''
               = Inr (JStr (Date_str (Experience_start_date e)))"
    and eg: "dict_get (Experience_to_dict e) ''end_date'' JNull
               = Inr (JStr (Date_str (Experience_end_date e)))"
    and ei: "dict_item (Experience_to_dict e) ''end_date''
               = Inr (JStr (Date_str (Experience_end_date e)))"
    by (simp_all add: Experience_to_dict_def)
  have t: "truthy (JStr (Date_str (Experience_end_date e)))"
    using validated_Date_nonempty [OF assms(3)] by simp
  show ?thesis
    unfolding experience_from_dict_def p c sd eg ei b bind_err_simps str_of.simps Date_of.simps
    using t assms(2,3) by (simp add: validated_Date_def)
qed

lemma experiences_roundtrip:
  assumes "list_all (validated_Experience now) es"
    and "list_all (\<lambda>e. Date_str (Experience_start_date e) \<noteq> ''present'') es"
    and mono: "\<forall>i j. i \<le> j \<longrightarrow> clk i \<le> clk j"
    and "now \<le> clk n"
  shows "\<exists>n'. traverse_st (experience_from_dict clk) (map Experience_to_dict es) n = (Inr es, n')
            \<and> n \<le> n'"
  using assms(1,2,4)
proof (induction es arbitrary: n)
  case Nil
  then show ?case by simp
next
  case (Cons e es)
  from Cons.prems have v: "validated_Experience now e"
    and cal: "Date_str (Experience_start_date e) \<noteq> ''present''" by simp_all
  let ?r = "Experience_init clk (Experience_position e) (Experience_company e)
             (Experience_description e) (Experience_start_date e)
             (Some (Experience_end_date e)) n"
  have step: "experience_from_dict clk (Experience_to_dict e) n = ?r"
    using v by (intro experience_from_dict_to_dict) (simp_all add: validated_Experience_def)
  have f: "fst ?r = Inr e" by (rule Experience_init_later [OF v cal mono Cons.prems(3)])
  have g: "n \<le> snd ?r" by (rule Experience_init_state)
  obtain n1 where r: "?r = (Inr e, n1)" and n1: "n \<le> n1"
    using f g by (cases ?r) auto
  have "now \<le> clk n1" using Cons.prems(3) mono n1 order_trans by blast
  with Cons.IH [of n1] Cons.prems obtain n' where
    rest: "traverse_st (experience_from_dict clk) (map Experience_to_dict es) n1 = (Inr es, n')"
    and n': "n1 \<le> n'" by auto
  show ?case using step r rest n1 n' by simp
qed

lemma Education_init_state:
  "n \<le> snd (Education_init clk school degree start_date awards gpa n)"
  unfolding Education_init_def today_def
  by (auto split: sum.splits prod.splits if_splits option.splits
      simp: to_datetime_def today_def)

lemma Education_init_later:
  assumes v: "validated_Education now ed"
    and mono: "\<forall>i j. i \<le> j \<longrightarrow> clk i \<le> clk j"
    and later: "now \<le> clk n"
  shows "fst (Education_init clk (Education_school ed) (Education_degree ed)
                (Education_start_date ed) (Some (Education_awards ed)) (Education_gpa ed) n)
         = Inr ed"
proof -
  from v have ok: "fst (Education_init (frozen now) (Education_school ed) (Education_degree ed)
                (Education_start_date ed) (Some (Education_awards ed)) (Education_gpa ed) 0)
         = Inr ed"
    and vs: "validated_Date (Education_start_date ed)"
    by (simp_all add: validated_Education_def)
  show ?thesis
  proof (cases "Date_str (Education_start_date ed) = ''present''")
    case True
    with ok show ?thesis
      by (simp add: Education_init_def to_datetime_present today_def frozen_def split: if_splits)
  next
    case False
    with vs obtain t where t: "strptime (Date_str (Education_start_date ed)) = Some t"
      by (rule Date_valid_calendar)
    from ok have "t < now"
      by (simp add: Education_init_def to_datetime_calendar [OF t] today_def frozen_def not_le
          split: if_splits)
    then have "t < clk n" using later by (rule less_le_trans)
    then have "\<not> clk n \<le> t" by (simp add: not_le)
    with ok show ?thesis
      by (simp add: Education_init_def to_datetime_calendar [OF t] today_def frozen_def
          split: if_splits)
  qed
qed

lemma education_from_dict_to_dict:
  assumes "validated_Date (Education_start_date ed)"
  shows "education_from_dict clk (Education_to_dict ed) n =
           Education_init clk (Education_school ed) (Education_degree ed)
             (Education_start_date ed) (Some (Education_awards ed)) (Education_gpa ed) n"
proof -
  have a: "dict_item (Education_to_dict ed) ''school'' = Inr (JStr (Education_school ed))"
    and b: "dict_item (Education_to_dict ed) ''degree'' = Inr (JStr (Education_degree ed))"
    and c: "dict_item (Education_to_dict ed) ''start_date''
              = Inr (JStr (Date_str (Education_start_date ed)))"
    and d: "dict_get (Education_to_dict ed) ''awards'' JNull
              = Inr (JList (map JStr (Education_awards ed)))"
    and e: "dict_get (Education_to_dict ed) ''gpa'' JNull
              = Inr (case Education_gpa ed of None \<Rightarrow> JNull | Some g \<Rightarrow> JNum g)"
    by (simp_all add: Education_to_dict_def)
  have g: "gpa_of (case Education_gpa ed of None \<Rightarrow> JNull | Some g \<Rightarrow> JNum g)
             = Inr (Education_gpa ed)"
    by (simp split: option.splits)
  show ?thesis
    unfolding education_from_dict_def a b c d e bind_err_simps str_of.simps Date_of.simps g
    using assms by (simp add: validated_Date_def traverse_str_of)
qed

lemma educations_roundtrip:
  assumes "list_all (validated_Education now) es"
    and mono: "\<forall>i j. i \<le> j \<longrightarrow> clk i \<le> clk j"
    and "now \<le> clk n"
  shows "\<exists>n'. traverse_st (education_from_dict clk) (map Education_to_dict es) n = (Inr es, n')
            \<and> n \<le> n'"
  using assms(1,3)
proof (induction es arbitrary: n)
  case Nil
  then show ?case by simp
next
  case (Cons e es)
  from Cons.prems have v: "validated_Education now e" by simp
  let ?r = "Education_init clk (Education_school e) (Education_degree e)
             (Education_start_date e) (Some (Education_awards e)) (Education_gpa e) n"
  have step: "education_from_dict clk (Education_to_dict e) n = ?r"
    using v by (intro education_from_dict_to_dict) (simp add: validated_Education_def)
  have f: "fst ?r = Inr e" by (rule Education_init_later [OF v mono Cons.prems(2)])
  have g: "n \<le> snd ?r" by (rule Education_init_state)
  obtain n1 where r: "?r = (Inr e, n1)" and n1: "n \<le> n1"
    using f g by (cases ?r) auto
  have "now \<le> clk n1" using Cons.prems(2) mono n1 order_trans by blast
  with Cons.IH [of n1] Cons.prems obtain n' where
    rest: "traverse_st (education_from_dict clk) (map Education_to_dict es) n1 = (Inr es, n')"
    and n': "n1 \<le> n'" by auto
  show ?case using step r rest n1 n' by simp
qed

lemma project_roundtrip:
  assumes "validated_Project p"
  shows "project_from_dict (Project_to_dict p) = Inr p"
proof -
  from assms have bs: "list_all validated_BulletPoint (Project_description p)"
    and lk: "case Project_link p of None \<Rightarrow> True | Some x \<Rightarrow> Website_init (Website_str x) = Inr x"
    and ok: "Project_init (Project_name p) (Project_skills p) (Project_description p)
            (Project_link p) = Inr p"
    by (simp_all add: validated_Project_def)
  have b: "bullets_from_dict (Project_to_dict p) = Inr (Project_description p)"
    unfolding Project_to_dict_def
    by (rule bullets_from_dict_roundtrip [OF bs]) simp
  have l: "opt_field (Project_to_dict p) ''link'' Website_of = Inr (Project_link p)"
    unfolding Project_to_dict_def
    by (rule opt_field_roundtrip) (use lk in \<open>auto dest: Website_init_nonempty split: option.splits\<close>)
  have n: "dict_item (Project_to_dict p) ''name'' = Inr (JStr (Project_name p))"
    and s: "dict_get (Project_to_dict p) ''skills'' (JList [])
              = Inr (JList (map JStr (Project_skills p)))"
    by (simp_all add: Project_to_dict_def)
  show ?thesis
    unfolding project_from_dict_def n s b l bind_err_simps str_of.simps str_list_of.simps
      traverse_str_of
    by (rule ok)
qed

lemma projects_roundtrip:
  assumes "list_all validated_Project ps"
  shows "traverse project_from_dict (map Project_to_dict ps) = Inr ps"
  using assms by (induction ps) (simp_all add: project_roundtrip)


lemma from_dict_experience_roundtrip:
  assumes "case Resume_experience d of None \<Rightarrow> True
           | Some s \<Rightarrow> list_all (validated_Experience now) (ExperienceSection_experiences s)"
    and "calendar_starts d"
    and mono: "\<forall>i j. i \<le> j \<longrightarrow> clk i \<le> clk j"
    and later: "now \<le> clk n"
  shows "\<exists>n'. from_dict_experience clk (to_dict d) n = (Inr (Resume_experience d), n') \<and> n \<le> n'"
proof (cases "Resume_experience d")
  case None
  then show ?thesis by (simp add: from_dict_experience_def to_dict_def opt_dict_def)
next
  case (Some sec)
  with assms(1,2) have v: "list_all (validated_Experience now) (ExperienceSection_experiences sec)"
    and c: "list_all (\<lambda>e. Date_str (Experience_start_date e) \<noteq> ''present'')
              (ExperienceSection_experiences sec)"
    by (simp_all add: calendar_starts_def)
  from experiences_roundtrip [OF v c mono later] obtain n' where
    t: "traverse_st (experience_from_dict clk)
          (map Experience_to_dict (ExperienceSection_experiences sec)) n
        = (Inr (ExperienceSection_experiences sec), n')" and n': "n \<le> n'" by blast
  have g: "dict_get (to_dict d) ''experience'' JNull = Inr (ExperienceSection_to_dict sec)"
    and i: "dict_item (to_dict d) ''experience'' = Inr (ExperienceSection_to_dict sec)"
    using Some by (simp_all add: to_dict_def opt_dict_def)
  have "from_dict_experience clk (to_dict d) n = (Inr (Some sec), n')"
    unfolding from_dict_experience_def g i
    by (simp add: ExperienceSection_to_dict_def t ExperienceSection_init_def)
  with Some n' show ?thesis by simp
qed

lemma from_dict_projects_roundtrip:
  assumes "case Resume_projects d of None \<Rightarrow> True
           | Some s \<Rightarrow> list_all validated_Project (ProjectSection_projects s)"
  shows "from_dict_projects (to_dict d) = Inr (Resume_projects d)"
proof (cases "Resume_projects d")
  case None
  then show ?thesis by (simp add: from_dict_projects_def to_dict_def opt_dict_def)
next
  case (Some sec)
  with assms have v: "list_all validated_Project (ProjectSection_projects sec)" by simp
  have g: "dict_get (to_dict d) ''projects'' JNull = Inr (ProjectSection_to_dict sec)"
    and i: "dict_item (to_dict d) ''projects'' = Inr (ProjectSection_to_dict sec)"
    using Some by (simp_all add: to_dict_def opt_dict_def)
  show ?thesis
    unfolding from_dict_projects_def g i using Some
    by (simp add: ProjectSection_to_dict_def projects_roundtrip [OF v] ProjectSection_init_def)
qed

lemma from_dict_education_roundtrip:
  assumes "case Resume_education d of None \<Rightarrow> True
           | Some s \<Rightarrow> list_all (validated_Education now) (EducationSection_educations s)"
    and mono: "\<forall>i j. i \<le> j \<longrightarrow> clk i \<le> clk j"
    and later: "now \<le> clk n"
  shows "\<exists>n'. from_dict_education clk (to_dict d) n = (Inr (Resume_education d), n') \<and> n \<le> n'"
proof (cases "Resume_education d")
  case None
  then show ?thesis by (simp add: from_dict_education_def to_dict_def opt_dict_def)
next
  case (Some sec)
  with assms(1) have v: "list_all (validated_Education now) (EducationSection_educations sec)"
    by simp
  from educations_roundtrip [OF v mono later] obtain n' where
    t: "traverse_st (education_from_dict clk)
          (map Education_to_dict (EducationSection_educations sec)) n
        = (Inr (EducationSection_educations sec), n')" and n': "n \<le> n'" by blast
  have g: "dict_get (to_dict d) ''education'' JNull = Inr (EducationSection_to_dict sec)"
    and i: "dict_item (to_dict d) ''education'' = Inr (EducationSection_to_dict sec)"
    using Some by (simp_all add: to_dict_def opt_dict_def)
  have "from_dict_education clk (to_dict d) n = (Inr (Some sec), n')"
    unfolding from_dict_education_def g i
    by (simp add: EducationSection_to_dict_def t EducationSection_init_def)
  with Some n' show ?thesis by simp
qed

lemma from_dict_to_dict:
  assumes v: "validated_Resume now d"
    and cal: "calendar_starts d"
    and mono: "\<forall>i j. i \<le> j \<longrightarrow> clk i \<le> clk j"
    and later: "now \<le> clk n"
    and ms: "\<forall>xs. set (mkset xs) = set xs"
  shows "\<exists>n'. from_dict mkset clk (to_dict d) n =
           (Inr (Resume_init (Resume_header d)
                   (map_option (\<lambda>s. \<lparr>SkillSection_skill_types =
                                      map (reorder mkset) (SkillSection_skill_types s)\<rparr>)
                      (Resume_skills d))
                   (Resume_experience d) (Resume_projects d) (Resume_education d)), n')"
proof -
  from v have h: "from_dict_header (to_dict d) = Inr (Resume_header d)"
    by (intro from_dict_header_roundtrip) (simp add: validated_Resume_def)
  from v have sk: "from_dict_skills mkset (to_dict d) =
           Inr (map_option (\<lambda>s. \<lparr>SkillSection_skill_types =
                                    map (reorder mkset) (SkillSection_skill_types s)\<rparr>)
                  (Resume_skills d))"
    by (intro from_dict_skills_roundtrip ms) (simp add: validated_Resume_def)
  from v have ve: "case Resume_experience d of None \<Rightarrow> True
           | Some s \<Rightarrow> list_all (validated_Experience now) (ExperienceSection_experiences s)"
    by (simp add: validated_Resume_def)
  from from_dict_experience_roundtrip [OF ve cal mono later] obtain n1 where
    ex: "from_dict_experience clk (to_dict d) n = (Inr (Resume_experience d), n1)"
    and n1: "n \<le> n1"
    by blast
  from v have pr: "from_dict_projects (to_dict d) = Inr (Resume_projects d)"
    by (intro from_dict_projects_roundtrip) (simp add: validated_Resume_def)
  have later1: "now \<le> clk n1" using later mono n1 order_trans by blast
  from v have vd: "case Resume_education d of None \<Rightarrow> True
           | Some s \<Rightarrow> list_all (validated_Education now) (EducationSection_educations s)"
    by (simp add: validated_Resume_def)
  from from_dict_education_roundtrip [OF vd mono later1] obtain n2 where
    ed: "from_dict_education clk (to_dict d) n1 = (Inr (Resume_education d), n2)"
    by blast
  show ?thesis
    by (simp add: from_dict_def h sk ex pr ed)
qed

text \<open>
  Claim C1, amended: a document that is validated at one instant and whose experiences
  start at calendar dates is reconstructed from its serialized record at any later
  reading of a clock that never goes back, and the reconstructed document has the same
  header, experiences, projects and educations, and skill groups with the same names
  and the same sets of skill names.
\<close>
theorem from_dict_to_dict_roundtrip:
  assumes "validated_Resume now d"
    and "calendar_starts d"
    and "\<forall>i j. i \<le> j \<longrightarrow> clk i \<le> clk j"
    and "now \<le> clk n"
    and "\<forall>xs. set (mkset xs) = set xs"
  shows "\<exists>d' n'. from_dict mkset clk (to_dict d) n = (Inr d', n') \<and> same_fields d d'"
proof -
  from from_dict_to_dict [OF assms] obtain n' where
    r: "from_dict mkset clk (to_dict d) n =
           (Inr (Resume_init (Resume_header d)
                   (map_option (\<lambda>s. \<lparr>SkillSection_skill_types =
                                      map (reorder mkset) (SkillSection_skill_types s)\<rparr>)
                      (Resume_skills d))
                   (Resume_experience d) (Resume_projects d) (Resume_education d)), n')"
    by blast
  have "same_fields d (Resume_init (Resume_header d)
                   (map_option (\<lambda>s. \<lparr>SkillSection_skill_types =
                                      map (reorder mkset) (SkillSection_skill_types s)\<rparr>)
                      (Resume_skills d))
                   (Resume_experience d) (Resume_projects d) (Resume_education d))"
    using reorder_same [OF assms(5)]
    by (simp add: same_fields_def Resume_init_def split: option.splits)
  with r show ?thesis by blast
qed

lemma sample_validated: "validated_Resume (clock_2026 0) sample_resume"
  by code_simp

lemma sample_calendar: "calendar_starts sample_resume"
  by code_simp

text \<open>
  Claim C1, witness: the document of the repository's round-trip test, validated and
  reloaded on 3 November 2026.
\<close>
theorem from_dict_to_dict_roundtrip_witness:
  "validated_Resume (clock_2026 0) sample_resume \<and> calendar_starts sample_resume
   \<and> (\<exists>d' n'. from_dict remdups clock_2026 (to_dict sample_resume) 0 = (Inr d', n')
               \<and> same_fields sample_resume d')"
proof -
  have "clock_2026 0 \<le> clock_2026 0" by simp
  moreover have "\<forall>xs :: string list. set (remdups xs) = set xs" by simp
  ultimately show ?thesis
    using from_dict_to_dict_roundtrip [OF sample_validated sample_calendar clock_2026_mono,
        of 0 remdups] sample_validated sample_calendar
    by blast
qed

text \<open>
  Claim C1, counterexample: every value of the document passes its constructor in
  November 2026 (the experience starts at \<open>present\<close> and ends on 1 January 2030), and
  reconstructing the document from its serialized record in March 2031 raises a
  ValueError.
\<close>
theorem stale_resume_not_reloaded:
  "Date_init ''present'' = Inr (Date_obj ''present'')
   \<and> Date_init ''01-01-2030'' = Inr (Date_obj ''01-01-2030'')
   \<and> BulletPoint_init ''Did X'' = Inr \<lparr>BulletPoint_text = ''Did X''\<rparr>
   \<and> fst (Experience_init clock_2026 ''Dev'' ''Co'' [\<lparr>BulletPoint_text = ''Did X''\<rparr>]
            (Date_obj ''present'') (Some (Date_obj ''01-01-2030'')) 0) = Inr stale_experience
   \<and> fst (from_dict remdups clock_2031 (to_dict stale_resume) 0) = Inl ValueError"
  by code_simp

lemma LATEX_PREAMBLE_nonempty: "LATEX_PREAMBLE \<noteq> []"
  by (simp add: LATEX_PREAMBLE_def tex_def)

lemma LATEX_END_nonempty: "LATEX_END \<noteq> []"
  by (simp add: LATEX_END_def)





lemma bind_err_Inr_iff: "bind_err m f = Inr y \<longleftrightarrow> (\<exists>x. m = Inr x \<and> f x = Inr y)"
  by (cases m) simp_all

lemma build_header_nonempty: "build_header h = Inr x \<Longrightarrow> x \<noteq> []"
  unfolding build_header_def by (clarsimp simp: bind_err_Inr_iff)

text \<open>
  An absent section emits nothing: its builder returns the empty text, and the output
  is made of the other blocks alone, with no separator for the absent one. With all
  four optional sections absent the output is the preamble, the header and the closing
  line.
\<close>
lemma absent_sections_emit_nothing:
  "build_skills None = [] \<and> build_experience None = Inr [] \<and> build_projects None = Inr []
   \<and> build_education fstr None = Inr []
   \<and> (Resume_skills r = None \<longrightarrow>
        resume_to_latex fstr r =
          bind_err (build_header (Resume_header r)) (\<lambda>h.
          bind_err (build_experience (Resume_experience r)) (\<lambda>e.
          bind_err (build_projects (Resume_projects r)) (\<lambda>p.
          bind_err (build_education fstr (Resume_education r)) (\<lambda>d.
          Inr (emit [LATEX_PREAMBLE, h, e, p, d, LATEX_END]))))))
   \<and> (Resume_experience r = None \<longrightarrow>
        resume_to_latex fstr r =
          bind_err (build_header (Resume_header r)) (\<lambda>h.
          bind_err (build_projects (Resume_projects r)) (\<lambda>p.
          bind_err (build_education fstr (Resume_education r)) (\<lambda>d.
          Inr (emit [LATEX_PREAMBLE, h, build_skills (Resume_skills r), p, d, LATEX_END])))))
   \<and> (Resume_projects r = None \<longrightarrow>
        resume_to_latex fstr r =
          bind_err (build_header (Resume_header r)) (\<lambda>h.
          bind_err (build_experience (Resume_experience r)) (\<lambda>e.
          bind_err (build_education fstr (Resume_education r)) (\<lambda>d.
          Inr (emit [LATEX_PREAMBLE, h, build_skills (Resume_skills r), e, d, LATEX_END])))))
   \<and> (Resume_education r = None \<longrightarrow>
        resume_to_latex fstr r =
          bind_err (build_header (Resume_header r)) (\<lambda>h.
          bind_err (build_experience (Resume_experience r)) (\<lambda>e.
          bind_err (build_projects (Resume_projects r)) (\<lambda>p.
          Inr (emit [LATEX_PREAMBLE, h, build_skills (Resume_skills r), e, p, LATEX_END])))))
   \<and> (Resume_skills r = None \<and> Resume_experience r = None \<and> Resume_projects r = None
        \<and> Resume_education r = None \<longrightarrow>
        resume_to_latex fstr r =
          bind_err (build_header (Resume_header r)) (\<lambda>h.
            Inr (LATEX_PREAMBLE @ NL # h @ NL # LATEX_END)))"
proof -
  have b: "build_skills None = []" "build_experience None = Inr []"
    "build_projects None = Inr []" "build_education fstr None = Inr []"
    by (simp_all add: build_skills_def build_experience_def build_projects_def
        build_education_def)
  have all_absent: "resume_to_latex fstr r =
          bind_err (build_header (Resume_header r)) (\<lambda>h.
            Inr (LATEX_PREAMBLE @ NL # h @ NL # LATEX_END))"
    if "Resume_skills r = None" "Resume_experience r = None" "Resume_projects r = None"
      "Resume_education r = None"
  proof (cases "build_header (Resume_header r)")
    case (Inl e)
    then show ?thesis by (simp add: resume_to_latex_def)
  next
    case (Inr h)
    then have "h \<noteq> []" by (rule build_header_nonempty)
    then show ?thesis
      using Inr that
      by (simp add: resume_to_latex_def b LATEX_PREAMBLE_nonempty LATEX_END_nonempty)
  qed
  have one_absent:
    "Resume_skills r = None \<longrightarrow>
        resume_to_latex fstr r =
          bind_err (build_header (Resume_header r)) (\<lambda>h.
          bind_err (build_experience (Resume_experience r)) (\<lambda>e.
          bind_err (build_projects (Resume_projects r)) (\<lambda>p.
          bind_err (build_education fstr (Resume_education r)) (\<lambda>d.
          Inr (emit [LATEX_PREAMBLE, h, e, p, d, LATEX_END])))))"
    "Resume_experience r = None \<longrightarrow>
        resume_to_latex fstr r =
          bind_err (build_header (Resume_header r)) (\<lambda>h.
          bind_err (build_projects (Resume_projects r)) (\<lambda>p.
          bind_err (build_education fstr (Resume_education r)) (\<lambda>d.
          Inr (emit [LATEX_PREAMBLE, h, build_skills (Resume_skills r), p, d, LATEX_END]))))"
    "Resume_projects r = None \<longrightarrow>
        resume_to_latex fstr r =
          bind_err (build_header (Resume_header r)) (\<lambda>h.
          bind_err (build_experience (Resume_experience r)) (\<lambda>e.
          bind_err (build_education fstr (Resume_education r)) (\<lambda>d.
          Inr (emit [LATEX_PREAMBLE, h, build_skills (Resume_skills r), e, d, LATEX_END]))))"
    "Resume_education r = None \<longrightarrow>
        resume_to_latex fstr r =
          bind_err (build_header (Resume_header r)) (\<lambda>h.
          bind_err (build_experience (Resume_experience r)) (\<lambda>e.
          bind_err (build_projects (Resume_projects r)) (\<lambda>p.
          Inr (emit [LATEX_PREAMBLE, h, build_skills (Resume_skills r), e, p, LATEX_END]))))"
    by (simp_all add: resume_to_latex_def b emit_def bind_err_def split: sum.splits)
  show ?thesis
    using b one_absent all_absent by blast
qed

lemma plain_resume_blocks:
  "build_header (Resume_header plain_resume) =
     Inr (BS # ''begin{center}\<newline>    '' @ BS # ''textbf{'' @ BS # ''Huge '' @ BS # ''scshape A '' @ BS # ''& B} '' @ [BS] @ BS # '' '' @ BS # ''vspace{4pt}\<newline>    '' @ BS # ''small \<newline>\<newline>'' @ BS # ''end{center}\<newline>'')"
  "build_experience (Resume_experience plain_resume) =
     Inr (BS # ''section{Experience}\<newline>\<newline>'' @ BS # ''resumeSubHeadingListStart\<newline>'' @ BS # ''resumeSubheading{'' @ BS # ''textbf{Dev}}{01-01-2022 -- 01-01-2023}{Co}{}\<newline>      '' @ BS # ''resumeItemListStart\<newline>        '' @ BS # ''resumeItem{Did X}\<newline>      '' @ BS # ''resumeItemListEnd\<newline>'' @ BS # ''resumeSubHeadingListEnd\<newline>'')"
  by code_simp+

lemma bs_clear_no_bs: "BS \<notin> set s \<Longrightarrow> bs_clear n s"
  by (induction s) auto

lemma bs_clear_join:
  "bs_clear n sep \<Longrightarrow> \<forall>x \<in> set xs. bs_clear n x \<Longrightarrow> bs_clear n (join sep xs)"
  by (induction sep xs rule: join.induct) (simp_all add: bs_clear_append)

lemma bs_clear_concat: "\<forall>x \<in> set xs. bs_clear n x \<Longrightarrow> bs_clear n (concat xs)"
  by (induction xs) (simp_all add: bs_clear_append)

lemma bs_safe_append: "bs_safe a x \<Longrightarrow> bs_safe a y \<Longrightarrow> bs_safe a (x @ y)"
proof (induction a x rule: bs_safe.induct)
  case (1 a)
  then show ?case by simp
next
  case (2 a c)
  then show ?case by (cases y) auto
next
  case (3 a c d r)
  then show ?case by auto
qed

lemma bs_safe_tl: "bs_safe a (c # s) \<Longrightarrow> bs_safe a s"
  by (cases s) auto

lemma bs_safe_dropWhile: "bs_safe a s \<Longrightarrow> bs_safe a (dropWhile P s)"
  by (induction s) (auto dest: bs_safe_tl)

lemma bs_safe_butlast_space:
  "bs_safe a (s @ [w]) \<Longrightarrow> py_isspace w \<Longrightarrow> bs_safe a s"
proof (induction a s rule: bs_safe.induct)
  case (1 a)
  then show ?case by simp
next
  case (2 a c)
  then show ?case by auto
next
  case (3 a c d r)
  then show ?case by auto
qed

lemma bs_safe_rev_dropWhile:
  "bs_safe a s \<Longrightarrow> bs_safe a (rev (dropWhile py_isspace (rev s)))"
proof (induction s rule: rev_induct)
  case Nil
  then show ?case by simp
next
  case (snoc w s)
  show ?case
  proof (cases "py_isspace w")
    case True
    with snoc show ?thesis by (auto dest: bs_safe_butlast_space)
  next
    case False
    with snoc.prems show ?thesis by simp
  qed
qed

lemma bs_safe_strip: "bs_safe a s \<Longrightarrow> bs_safe a (strip s)"
  unfolding strip_def by (intro bs_safe_rev_dropWhile bs_safe_dropWhile)

lemma bs_safe_clear: "bs_safe a s \<Longrightarrow> bs_clear (a # n) s"
  by (induction a s rule: bs_safe.induct) auto

lemma bs_safe_esc_char:
  assumes "a \<notin> set ''&%$#_{}t''"
  shows "bs_safe a (spec_esc_char c)"
  using assms by (auto simp: spec_esc_char_def py_isspace_def)

lemma bs_safe_esc:
  assumes "a \<notin> set ''&%$#_{}t''"
  shows "bs_safe a (esc (Some s))"
  unfolding esc_Some using assms
  by (induction s) (simp_all add: bs_safe_append bs_safe_esc_char del: set_simps)

lemma bs_clear_list: "list_all (bs_clear n) xs \<Longrightarrow> bs_clear n (concat xs)"
  by (induction xs) (simp_all add: bs_clear_append)

lemma tex_concat: "tex (concat ls) = concat (map tex ls)"
  by (induction ls) (simp_all add: tex_def)

lemma diverges_extend: "diverges r n \<Longrightarrow> diverges r (n @ m)"
  by (induction r n rule: diverges.induct) auto

lemma bs_clear_extend: "bs_clear n s \<Longrightarrow> bs_clear (n @ m) s"
  by (induction s) (auto simp: diverges_extend)

lemma preamble_section: "bs_clear ''section{'' LATEX_PREAMBLE"
  unfolding LATEX_PREAMBLE_def tex_concat
  by (rule bs_clear_list) code_simp

lemma preamble_clear: "bs_clear (''section{'' @ m) LATEX_PREAMBLE"
  by (rule bs_clear_extend) (rule preamble_section)

lemma end_clear: "bs_clear (''section{'' @ m) LATEX_END"
  by (simp add: LATEX_END_def)

lemma esc_se [simp]: "bs_clear (CHR ''s'' # n) (esc (Some x))"
  by (rule bs_clear_esc) simp

lemma right_top_clear:
  "bs_clear (CHR ''s'' # n) (strip (esc (Some a) @ '' -- '' @ esc (Some b)))"
  by (intro bs_safe_clear bs_safe_strip bs_safe_append bs_safe_esc) simp_all

lemma bs_clear_join_all:
  "bs_clear n sep \<Longrightarrow> list_all (bs_clear n) xs \<Longrightarrow> bs_clear n (join sep xs)"
  by (rule bs_clear_join) (simp_all add: list_all_iff)

lemma bullet_lines_all:
  assumes "bs_clear (CHR ''s'' # n) start" "bs_clear (CHR ''s'' # n) item"
    "bs_clear (CHR ''s'' # n) stop"
  shows "list_all (bs_clear (CHR ''s'' # n)) (bullet_lines start item stop bs)"
  using assms by (auto simp: bullet_lines_def bs_clear_append list_all_iff)

lemma fa_clear: "bs_clear (CHR ''s'' # n) (fa i)"
  by (auto simp: fa_def split: option.splits dest!: map_of_SomeD)

lemma blue_icon_clear: "bs_clear (CHR ''s'' # n) (blue_icon i)"
  using fa_clear [of n i] by (simp add: blue_icon_def Let_def bs_clear_append)

lemma traverse_all:
  assumes "traverse f xs = Inr ys" and "\<And>x y. f x = Inr y \<Longrightarrow> P y"
  shows "list_all P ys"
  using assms(1)
proof (induction xs arbitrary: ys)
  case Nil
  then show ?case by simp
next
  case (Cons x xs)
  then show ?case
    by (auto simp: bind_err_Inr_iff dest: assms(2))
qed

lemma list_all_concat: "list_all (list_all P) ls \<Longrightarrow> list_all P (concat ls)"
  by (induction ls) simp_all

lemma experience_lines_clear:
  assumes "experience_lines e = Inr ls"
  shows "list_all (bs_clear (CHR ''s'' # CHR ''e'' # n)) ls"
proof -
  let ?n = "CHR ''s'' # CHR ''e'' # n"
  from assms have "ls = [BS # ''resumeSubheading{''
        @ blue_icon (maybe_icon_from_role (Experience_position e))
        @ BS # ''textbf{'' @ esc (Some (Experience_position e)) @ ''}''
        @ ''}{'' @ strip (esc (Some (Date_str (Experience_start_date e))) @ '' -- ''
                          @ esc (Some (Date_str (Experience_end_date e)))) @ ''}{''
        @ esc (Some (Experience_company e)) @ ''}{'' @ esc (Some []) @ ''}'']
      @ bullet_lines (''      '' @ BS # ''resumeItemListStart'')
             (''        '' @ BS # ''resumeItem{'') (''      '' @ BS # ''resumeItemListEnd'')
             (Experience_description e)"
    by (simp add: experience_lines_def Let_def)
  then show ?thesis
    using right_top_clear [of "CHR ''e'' # n"] blue_icon_clear [of "CHR ''e'' # n"]
    by (simp add: bs_clear_append bullet_lines_all)
qed

lemma build_experience_clear:
  assumes "build_experience s = Inr x" and "diverges ''Experience}'' m"
  shows "bs_clear (''section{'' @ m) x"
proof (cases "s = None \<or> (\<exists>sec. s = Some sec \<and> ExperienceSection_experiences sec = [])")
  case True
  with assms(1) show ?thesis by (auto simp: build_experience_def)
next
  case False
  then obtain sec where s: "s = Some sec" and ne: "ExperienceSection_experiences sec \<noteq> []"
    by (cases s) auto
  from assms(1) s ne obtain ls where
    t: "traverse experience_lines (ExperienceSection_experiences sec) = Inr ls"
    and x: "x = join [NL] ([BS # ''section{Experience}'', [], BS # ''resumeSubHeadingListStart'']
                         @ concat ls @ [BS # ''resumeSubHeadingListEnd'', []])"
    by (auto simp: build_experience_def bind_err_Inr_iff)
  have "list_all (list_all (bs_clear (''section{'' @ m))) ls"
    using traverse_all [OF t, where P = "list_all (bs_clear (''section{'' @ m))"]
      experience_lines_clear [of _ _ "''ction{'' @ m"] by simp
  then have c: "list_all (bs_clear (''section{'' @ m)) (concat ls)"
    by (rule list_all_concat)
  have h: "bs_clear (''section{'' @ m) (BS # ''section{Experience}'')"
    using diverges_append [OF assms(2), of "[]"] by simp
  show ?thesis
    unfolding x using c h by (intro bs_clear_join_all) simp_all
qed

lemma project_lines_clear:
  assumes "project_lines p = Inr ls"
  shows "list_all (bs_clear (CHR ''s'' # CHR ''e'' # n)) ls"
proof -
  let ?n = "CHR ''s'' # CHR ''e'' # n"
  from assms obtain left where l: "project_left p = Inr left"
    and ls: "ls = [''      '' @ BS # ''resumeSubHeadingListStart'',
                   BS # ''resumeProjectHeading{'' @ left @ ''}{}'']
            @ bullet_lines (''          '' @ BS # ''resumeItemListStart'')
                (''            '' @ BS # ''resumeItem{'') (''          '' @ BS # ''resumeItemListEnd'')
                (Project_description p)
            @ [''    '' @ BS # ''resumeSubHeadingListEnd'', []]"
    by (auto simp: project_lines_def bind_err_Inr_iff)
  from l have "bs_clear ?n left"
    using fa_clear [of "CHR ''e'' # n" "Some ''ShareSquare''"]
    by (cases "Project_link p")
      (auto simp: project_left_def Let_def bind_err_Inr_iff bs_clear_append)
  then show ?thesis
    unfolding ls by (simp add: bs_clear_append bullet_lines_all)
qed

lemma build_projects_clear:
  assumes "build_projects s = Inr x" and "diverges ''Projects}'' m"
  shows "bs_clear (''section{'' @ m) x"
proof (cases "s = None \<or> (\<exists>sec. s = Some sec \<and> ProjectSection_projects sec = [])")
  case True
  with assms(1) show ?thesis by (auto simp: build_projects_def)
next
  case False
  then obtain sec where s: "s = Some sec" and ne: "ProjectSection_projects sec \<noteq> []"
    by (cases s) auto
  from assms(1) s ne obtain ls where
    t: "traverse project_lines (ProjectSection_projects sec) = Inr ls"
    and x: "x = join [NL] ([BS # ''section{Projects}'', []] @ concat ls)"
    by (auto simp: build_projects_def bind_err_Inr_iff)
  have "list_all (list_all (bs_clear (''section{'' @ m))) ls"
    using traverse_all [OF t, where P = "list_all (bs_clear (''section{'' @ m))"]
      project_lines_clear [of _ _ "''ction{'' @ m"] by simp
  then have c: "list_all (bs_clear (''section{'' @ m)) (concat ls)"
    by (rule list_all_concat)
  have h: "bs_clear (''section{'' @ m) (BS # ''section{Projects}'')"
    using diverges_append [OF assms(2), of "[]"] by simp
  show ?thesis
    unfolding x using c h by (intro bs_clear_join_all) simp_all
qed

lemma education_line_clear:
  assumes "education_line fstr edu = Inr l"
  shows "bs_clear (CHR ''s'' # CHR ''e'' # n) l"
  using assms
  by (auto simp: education_line_def Let_def bind_err_Inr_iff bs_clear_append)

lemma build_education_clear:
  assumes "build_education fstr s = Inr x" and "diverges ''Education}'' m"
  shows "bs_clear (''section{'' @ m) x"
proof (cases "s = None \<or> (\<exists>sec. s = Some sec \<and> EducationSection_educations sec = [])")
  case True
  with assms(1) show ?thesis by (auto simp: build_education_def)
next
  case False
  then obtain sec where s: "s = Some sec" and ne: "EducationSection_educations sec \<noteq> []"
    by (cases s) auto
  from assms(1) s ne obtain ls where
    t: "traverse (education_line fstr) (EducationSection_educations sec) = Inr ls"
    and x: "x = join [NL] ([''%-----------EDUCATION-----------'', BS # ''section{Education}'',
                            ''  '' @ BS # ''resumeSubHeadingListStart'']
                         @ ls @ [''  '' @ BS # ''resumeSubHeadingListEnd'', []])"
    by (auto simp: build_education_def bind_err_Inr_iff)
  have c: "list_all (bs_clear (''section{'' @ m)) ls"
    using traverse_all [OF t, where P = "bs_clear (''section{'' @ m)"]
      education_line_clear [of _ _ _ "''ction{'' @ m"] by simp
  have h: "bs_clear (''section{'' @ m) (BS # ''section{Education}'')"
    using diverges_append [OF assms(2), of "[]"] by simp
  show ?thesis
    unfolding x using c h by (intro bs_clear_join_all) simp_all
qed

lemma join_then_sep: "xs \<noteq> [] \<Longrightarrow> join sep xs @ sep = concat (map (\<lambda>x. x @ sep) xs)"
  by (induction sep xs rule: join.induct) simp_all

lemma build_skills_clear:
  assumes "diverges ''Skills}'' m"
  shows "bs_clear (''section{'' @ m) (build_skills s)"
proof (cases "s = None \<or> (\<exists>sec. s = Some sec \<and> SkillSection_skill_types sec = [])")
  case True
  then show ?thesis by (auto simp: build_skills_def)
next
  case False
  then obtain sec where s: "s = Some sec" and ne: "SkillSection_skill_types sec \<noteq> []"
    by (cases s) auto
  let ?n = "''section{'' @ m"
  let ?J = "join [NL] (map skill_line (SkillSection_skill_types sec))"
  have l: "bs_clear ?n (skill_line st @ [NL])" for st
    by (simp add: skill_line_def bs_clear_append)
  have "?J @ [NL] = concat (map (\<lambda>x. x @ [NL]) (map skill_line (SkillSection_skill_types sec)))"
    using ne by (intro join_then_sep) simp
  moreover have "bs_clear ?n \<dots>"
    by (rule bs_clear_list) (use l in \<open>simp add: list_all_iff\<close>)
  ultimately have j: "bs_clear ?n (?J @ [NL])" by simp
  have h: "bs_clear ?n (BS # ''section{Skills}'' @ NL # '' ''
             @ BS # ''begin{itemize}[leftmargin=0.15in, label={}]'' @ NL # ''    ''
             @ BS # ''small{'' @ BS # ''item{'' @ [NL])"
    using diverges_append [OF assms, of "NL # '' '' @ BS # ''begin{itemize}[leftmargin=0.15in, label={}]'' @ NL # ''    ''
             @ BS # ''small{'' @ BS # ''item{'' @ [NL]"] by simp
  have t: "bs_clear ?n (''    }}'' @ NL # '' '' @ NL # '' '' @ BS # ''end{itemize}'' @ [NL])"
    by simp
  have "build_skills s =
      (BS # ''section{Skills}'' @ NL # '' ''
             @ BS # ''begin{itemize}[leftmargin=0.15in, label={}]'' @ NL # ''    ''
             @ BS # ''small{'' @ BS # ''item{'' @ [NL])
      @ (?J @ [NL])
      @ (''    }}'' @ NL # '' '' @ NL # '' '' @ BS # ''end{itemize}'' @ [NL])"
    using s ne by (simp add: build_skills_def)
  then show ?thesis
    using h j t by (simp only: bs_clear_append)
qed

lemma contact_clear:
  assumes "href (UrlStr u) label True = Inr l" and "BS \<notin> set u"
    and "bs_clear (CHR ''s'' # n) icon"
  shows "bs_clear (CHR ''s'' # n) (contact_chunk icon l)"
proof -
  from assms(1,2) have "bs_clear (CHR ''s'' # n) l"
    by (auto simp: bs_clear_append bs_clear_no_bs split: if_splits)
  with assms(3) show ?thesis by (simp add: contact_chunk_def bs_clear_append)
qed

lemma chunk_case_clear:
  assumes "(case opt of None \<Rightarrow> Inr []
            | Some v \<Rightarrow> bind_err (href (UrlStr (f v)) (g v) True)
                         (\<lambda>l. Inr [contact_chunk icon l])) = Inr cs"
    and "case opt of None \<Rightarrow> True | Some v \<Rightarrow> BS \<notin> set (f v)"
    and "bs_clear (CHR ''s'' # n) icon"
  shows "list_all (bs_clear (CHR ''s'' # n)) cs"
proof (cases opt)
  case None
  with assms(1) show ?thesis by simp
next
  case (Some v)
  with assms(1) obtain l where l: "href (UrlStr (f v)) (g v) True = Inr l"
    and cs: "cs = [contact_chunk icon l]"
    by (auto simp: bind_err_Inr_iff simp del: href.simps)
  from assms(2) Some have "BS \<notin> set (f v)" by simp
  from contact_clear [OF l this assms(3)] cs show ?thesis by simp
qed

lemma build_header_clear:
  assumes "build_header h = Inr x" and "verbatim_clean h"
  shows "bs_clear (CHR ''s'' # CHR ''e'' # n) x"
proof -
  let ?n = "CHR ''s'' # CHR ''e'' # n"
  let ?icon = "\<lambda>i. ''    {'' @ BS # ''textcolor{vibrantblue}'' @ BS # i @ BS # ''hspace{0.5mm}}''"
  from assms(1) obtain c1 c2 c3 c4 c5 where
    c1: "(case Header_email h of None \<Rightarrow> Inr []
          | Some e \<Rightarrow> bind_err (href (UrlStr (''mailto:'' @ Email_str e)) (Email_str e) True)
                 (\<lambda>l. Inr [contact_chunk (?icon ''faEnvelope '') l])) = Inr c1"
    and c2: "(case Header_number h of None \<Rightarrow> Inr []
          | Some p \<Rightarrow> bind_err (href (UrlStr (''tel:'' @ filter (\<lambda>ch. py_isdigit ch \<or> ch = CHR ''+'')
                                   (PhoneNumber_str p))) (PhoneNumber_str p) True)
                 (\<lambda>l. Inr [contact_chunk (?icon ''faPhone '') l])) = Inr c2"
    and c3: "(case Header_linkedin h of None \<Rightarrow> Inr []
          | Some x \<Rightarrow> bind_err (href (UrlStr (LinkedIn_str x)) ''Linkedin'' True)
                 (\<lambda>l. Inr [contact_chunk (?icon ''faLinkedin '') l])) = Inr c3"
    and c4: "(case Header_portfolio h of None \<Rightarrow> Inr []
          | Some x \<Rightarrow> bind_err (href (UrlStr (Website_str x)) ''Website'' True)
                 (\<lambda>l. Inr [contact_chunk (?icon ''faGlobe '') l])) = Inr c4"
    and c5: "(case Header_github h of None \<Rightarrow> Inr []
          | Some x \<Rightarrow> bind_err (href (UrlStr (GitHub_str x)) ''GitHub'' True)
                 (\<lambda>l. Inr [contact_chunk (?icon ''faGithub '') l])) = Inr c5"
    and x: "x = join [NL]
            [BS # ''begin{center}'',
             ''    '' @ BS # ''textbf{'' @ BS # ''Huge '' @ BS # ''scshape '' @ esc (Some (Header_name h))
               @ ''} '' @ [BS] @ BS # '' '' @ BS # ''vspace{4pt}'',
             ''    '' @ BS # ''small '',
             join ('' '' @ [NL] @ ''    $|$ '' @ [NL] @ ''    '') (c1 @ c2 @ c3 @ c4 @ c5),
             BS # ''end{center}'',
             []]"
    unfolding build_header_def Let_def
    by (auto simp: bind_err_Inr_iff simp del: href.simps)
  have k1: "list_all (bs_clear ?n) c1"
    using c1
    by (rule chunk_case_clear [where f = "\<lambda>e. ''mailto:'' @ Email_str e" and g = Email_str])
      (use assms(2) in \<open>auto simp: verbatim_clean_def split: option.splits\<close>)
  have k2: "list_all (bs_clear ?n) c2"
    using c2
    by (rule chunk_case_clear [where f = "\<lambda>p. ''tel:'' @ filter (\<lambda>ch. py_isdigit ch \<or> ch = CHR ''+'')
                                   (PhoneNumber_str p)" and g = PhoneNumber_str])
      (auto simp: py_isdigit_def py_isdecimal_def split: option.splits)
  have k3: "list_all (bs_clear ?n) c3"
    using c3
    by (rule chunk_case_clear [where f = LinkedIn_str and g = "\<lambda>x. ''Linkedin''"])
      (use assms(2) in \<open>auto simp: verbatim_clean_def split: option.splits\<close>)
  have k4: "list_all (bs_clear ?n) c4"
    using c4
    by (rule chunk_case_clear [where f = Website_str and g = "\<lambda>x. ''Website''"])
      (use assms(2) in \<open>auto simp: verbatim_clean_def split: option.splits\<close>)
  have k5: "list_all (bs_clear ?n) c5"
    using c5
    by (rule chunk_case_clear [where f = GitHub_str and g = "\<lambda>x. ''GitHub''"])
      (use assms(2) in \<open>auto simp: verbatim_clean_def split: option.splits\<close>)
  have j: "bs_clear ?n (join ('' '' @ [NL] @ ''    $|$ '' @ [NL] @ ''    '') (c1 @ c2 @ c3 @ c4 @ c5))"
    using k1 k2 k3 k4 k5 by (intro bs_clear_join_all) simp_all
  have nm: "bs_clear ?n (''    '' @ BS # ''textbf{'' @ BS # ''Huge '' @ BS # ''scshape ''
               @ esc (Some (Header_name h)) @ ''} '' @ [BS] @ BS # '' '' @ BS # ''vspace{4pt}'')"
    by (simp add: bs_clear_append)
  show ?thesis
    unfolding x using j nm
    by (intro bs_clear_join_all) (simp_all del: append.simps join.simps, simp_all)
qed

lemma list_all_filter: "list_all P xs \<Longrightarrow> list_all P (filter Q xs)"
  by (induction xs) simp_all

lemma output_clear:
  assumes out: "resume_to_latex fstr r = Inr out"
    and clean: "verbatim_clean (Resume_header r)"
    and sk: "Resume_skills r = None \<or> diverges ''Skills}'' m"
    and ex: "Resume_experience r = None \<or> diverges ''Experience}'' m"
    and pr: "Resume_projects r = None \<or> diverges ''Projects}'' m"
    and ed: "Resume_education r = None \<or> diverges ''Education}'' m"
  shows "bs_clear (''section{'' @ m) out"
proof -
  let ?n = "''section{'' @ m"
  from out obtain h e p d where
    h: "build_header (Resume_header r) = Inr h"
    and e: "build_experience (Resume_experience r) = Inr e"
    and p: "build_projects (Resume_projects r) = Inr p"
    and d: "build_education fstr (Resume_education r) = Inr d"
    and o: "out = join [NL] (filter (\<lambda>p. p \<noteq> [])
              [LATEX_PREAMBLE, h, build_skills (Resume_skills r), e, p, d, LATEX_END])"
    by (auto simp: resume_to_latex_def bind_err_Inr_iff)
  have ch: "bs_clear ?n h"
    using build_header_clear [OF h clean, of "''ction{'' @ m"] by simp
  have cs: "bs_clear ?n (build_skills (Resume_skills r))"
  proof (cases "Resume_skills r = None")
    case True
    then show ?thesis by (simp add: build_skills_def)
  next
    case False
    with sk show ?thesis by (intro build_skills_clear) simp
  qed
  have ce: "bs_clear ?n e"
  proof (cases "Resume_experience r = None")
    case True
    with e show ?thesis by (simp add: build_experience_def)
  next
    case False
    with ex show ?thesis by (intro build_experience_clear [OF e]) simp
  qed
  have cp: "bs_clear ?n p"
  proof (cases "Resume_projects r = None")
    case True
    with p show ?thesis by (simp add: build_projects_def)
  next
    case False
    with pr show ?thesis by (intro build_projects_clear [OF p]) simp
  qed
  have cd: "bs_clear ?n d"
  proof (cases "Resume_education r = None")
    case True
    with d show ?thesis by (simp add: build_education_def)
  next
    case False
    with ed show ?thesis by (intro build_education_clear [OF d]) simp
  qed
  have "list_all (bs_clear ?n)
          [LATEX_PREAMBLE, h, build_skills (Resume_skills r), e, p, d, LATEX_END]"
    using ch cs ce cp cd preamble_clear [of m] end_clear [of m] by simp
  then show ?thesis
    unfolding o by (intro bs_clear_join_all list_all_filter) simp_all
qed

text \<open>
  Claim C7, amended: when the contact values that are copied into the output as they
  are (e-mail address, LinkedIn, portfolio and GitHub links) hold no backslash, the
  output of a document without a skills block does not contain the skills heading
  anywhere, and the same holds for the heading of each other absent section.
\<close>
theorem absent_section_heading_not_in_output:
  assumes "resume_to_latex fstr r = Inr out" and "verbatim_clean (Resume_header r)"
  shows "(Resume_skills r = None \<longrightarrow> \<not> sublist (BS # ''section{Skills}'') out)
       \<and> (Resume_experience r = None \<longrightarrow> \<not> sublist (BS # ''section{Experience}'') out)
       \<and> (Resume_projects r = None \<longrightarrow> \<not> sublist (BS # ''section{Projects}'') out)
       \<and> (Resume_education r = None \<longrightarrow> \<not> sublist (BS # ''section{Education}'') out)"
proof (intro conjI impI)
  assume "Resume_skills r = None"
  then have "bs_clear (''section{'' @ ''Skills}'') out"
    by (intro output_clear [OF assms]) simp_all
  then show "\<not> sublist (BS # ''section{Skills}'') out"
    using bs_clear_no_sublist by fastforce
next
  assume "Resume_experience r = None"
  then have "bs_clear (''section{'' @ ''Experience}'') out"
    by (intro output_clear [OF assms]) simp_all
  then show "\<not> sublist (BS # ''section{Experience}'') out"
    using bs_clear_no_sublist by fastforce
next
  assume "Resume_projects r = None"
  then have "bs_clear (''section{'' @ ''Projects}'') out"
    by (intro output_clear [OF assms]) simp_all
  then show "\<not> sublist (BS # ''section{Projects}'') out"
    using bs_clear_no_sublist by fastforce
next
  assume "Resume_education r = None"
  then have "bs_clear (''section{'' @ ''Education}'') out"
    by (intro output_clear [OF assms]) simp_all
  then show "\<not> sublist (BS # ''section{Education}'') out"
    using bs_clear_no_sublist by fastforce
qed

lemma plain_resume_output:
  "resume_to_latex print_3_9 plain_resume =
     Inr (LATEX_PREAMBLE @ NL #
          (BS # ''begin{center}\<newline>    '' @ BS # ''textbf{'' @ BS # ''Huge '' @ BS # ''scshape A '' @ BS # ''& B} '' @ [BS] @ BS # '' '' @ BS # ''vspace{4pt}\<newline>    '' @ BS # ''small \<newline>\<newline>'' @ BS # ''end{center}\<newline>'')
          @ NL #
          (BS # ''section{Experience}\<newline>\<newline>'' @ BS # ''resumeSubHeadingListStart\<newline>'' @ BS # ''resumeSubheading{'' @ BS # ''textbf{Dev}}{01-01-2022 -- 01-01-2023}{Co}{}\<newline>      '' @ BS # ''resumeItemListStart\<newline>        '' @ BS # ''resumeItem{Did X}\<newline>      '' @ BS # ''resumeItemListEnd\<newline>'' @ BS # ''resumeSubHeadingListEnd\<newline>'')
          @ NL # LATEX_END)"
proof -
  have n: "Resume_skills plain_resume = None" "Resume_projects plain_resume = None"
    "Resume_education plain_resume = None"
    by (simp_all add: plain_resume_def Resume_init_def)
  show ?thesis
    using absent_sections_emit_nothing [of print_3_9 plain_resume] n
    by (simp add: plain_resume_blocks emit_def LATEX_PREAMBLE_nonempty LATEX_END_nonempty
        build_projects_def build_education_def)
qed

text \<open>
  Claim C7, witness: a document with a header and one experience; its output holds the
  experience heading and none of the three others.
\<close>
theorem absent_section_heading_not_in_output_witness:
  "verbatim_clean (Resume_header plain_resume) \<and> Resume_skills plain_resume = None
   \<and> Resume_projects plain_resume = None \<and> Resume_education plain_resume = None
   \<and> (\<exists>out. resume_to_latex print_3_9 plain_resume = Inr out
          \<and> \<not> sublist (BS # ''section{Skills}'') out
          \<and> \<not> sublist (BS # ''section{Projects}'') out
          \<and> \<not> sublist (BS # ''section{Education}'') out
          \<and> sublist (BS # ''section{Experience}'') out)"
proof -
  have c: "verbatim_clean (Resume_header plain_resume)"
    by (simp add: verbatim_clean_def plain_resume_def Resume_init_def)
  have n: "Resume_skills plain_resume = None" "Resume_projects plain_resume = None"
    "Resume_education plain_resume = None"
    by (simp_all add: plain_resume_def Resume_init_def)
  have e: "sublist (BS # ''section{Experience}'')
     (LATEX_PREAMBLE @ NL #
          (BS # ''begin{center}\<newline>    '' @ BS # ''textbf{'' @ BS # ''Huge '' @ BS # ''scshape A '' @ BS # ''& B} '' @ [BS] @ BS # '' '' @ BS # ''vspace{4pt}\<newline>    '' @ BS # ''small \<newline>\<newline>'' @ BS # ''end{center}\<newline>'')
          @ NL #
          (BS # ''section{Experience}\<newline>\<newline>'' @ BS # ''resumeSubHeadingListStart\<newline>'' @ BS # ''resumeSubheading{'' @ BS # ''textbf{Dev}}{01-01-2022 -- 01-01-2023}{Co}{}\<newline>      '' @ BS # ''resumeItemListStart\<newline>        '' @ BS # ''resumeItem{Did X}\<newline>      '' @ BS # ''resumeItemListEnd\<newline>'' @ BS # ''resumeSubHeadingListEnd\<newline>'')
          @ NL # LATEX_END)"
    unfolding sublist_def
    by (intro exI [of _ "LATEX_PREAMBLE @ NL # (BS # ''begin{center}\<newline>    '' @ BS # ''textbf{'' @ BS # ''Huge '' @ BS # ''scshape A '' @ BS # ''& B} '' @ [BS] @ BS # '' '' @ BS # ''vspace{4pt}\<newline>    '' @ BS # ''small \<newline>\<newline>'' @ BS # ''end{center}\<newline>'') @ [NL]"]
          exI [of _ "(''\<newline>\<newline>'' @ BS # ''resumeSubHeadingListStart\<newline>'' @ BS # ''resumeSubheading{'' @ BS # ''textbf{Dev}}{01-01-2022 -- 01-01-2023}{Co}{}\<newline>      '' @ BS # ''resumeItemListStart\<newline>        '' @ BS # ''resumeItem{Did X}\<newline>      '' @ BS # ''resumeItemListEnd\<newline>'' @ BS # ''resumeSubHeadingListEnd\<newline>'') @ NL # LATEX_END"]) simp
  show ?thesis
    using absent_section_heading_not_in_output [OF plain_resume_output c] c n e
      plain_resume_output
    by blast
qed

lemma injected_header:
  "build_header (Resume_header injected_resume) =
     Inr (BS # ''begin{center}\<newline>    '' @ BS # ''textbf{'' @ BS # ''Huge '' @ BS # ''scshape A} '' @ [BS] @ BS # '' '' @ BS # ''vspace{4pt}\<newline>    '' @ BS # ''small \<newline>    {'' @ BS # ''textcolor{vibrantblue}'' @ BS # ''faEnvelope '' @ BS # ''hspace{0.5mm}}\<newline>    '' @ BS # ''href{mailto:'' @ BS # ''section{Skills}@a.b}{'' @ BS # ''textcolor{vibrantblue}{'' @ BS # ''textbackslash{}section'' @ BS # ''{Skills'' @ BS # ''}@a.b}}\<newline>'' @ BS # ''end{center}\<newline>'')"
  by code_simp

text \<open>
  Claim C7, counterexample: the e-mail address of a document without a skills block is
  accepted by its constructor and is copied into the link as it is, so the text of the
  skills heading occurs in the output.
\<close>
theorem verbatim_email_heading_in_output:
  "Email_init (BS # ''section{Skills}@a.b'') = Inr (Email_obj (BS # ''section{Skills}@a.b''))
   \<and> Resume_skills injected_resume = None
   \<and> resume_to_latex print_3_9 injected_resume =
       Inr (LATEX_PREAMBLE @ NL #
            (BS # ''begin{center}\<newline>    '' @ BS # ''textbf{'' @ BS # ''Huge '' @ BS # ''scshape A} '' @ [BS] @ BS # '' '' @ BS # ''vspace{4pt}\<newline>    '' @ BS # ''small \<newline>    {'' @ BS # ''textcolor{vibrantblue}'' @ BS # ''faEnvelope '' @ BS # ''hspace{0.5mm}}\<newline>    '' @ BS # ''href{mailto:'' @ BS # ''section{Skills}@a.b}{'' @ BS # ''textcolor{vibrantblue}{'' @ BS # ''textbackslash{}section'' @ BS # ''{Skills'' @ BS # ''}@a.b}}\<newline>'' @ BS # ''end{center}\<newline>'')
            @ NL # LATEX_END)
   \<and> sublist (BS # ''section{Skills}'')
       (LATEX_PREAMBLE @ NL #
            (BS # ''begin{center}\<newline>    '' @ BS # ''textbf{'' @ BS # ''Huge '' @ BS # ''scshape A} '' @ [BS] @ BS # '' '' @ BS # ''vspace{4pt}\<newline>    '' @ BS # ''small \<newline>    {'' @ BS # ''textcolor{vibrantblue}'' @ BS # ''faEnvelope '' @ BS # ''hspace{0.5mm}}\<newline>    '' @ BS # ''href{mailto:'' @ BS # ''section{Skills}@a.b}{'' @ BS # ''textcolor{vibrantblue}{'' @ BS # ''textbackslash{}section'' @ BS # ''{Skills'' @ BS # ''}@a.b}}\<newline>'' @ BS # ''end{center}\<newline>'')
            @ NL # LATEX_END)"
proof -
  have a: "Email_init (BS # ''section{Skills}@a.b'') = Inr (Email_obj (BS # ''section{Skills}@a.b''))"
    by code_simp
  have n: "Resume_skills injected_resume = None" "Resume_experience injected_resume = None"
    "Resume_projects injected_resume = None" "Resume_education injected_resume = None"
    by (simp_all add: injected_resume_def Resume_init_def)
  have r: "resume_to_latex print_3_9 injected_resume =
       Inr (LATEX_PREAMBLE @ NL #
            (BS # ''begin{center}\<newline>    '' @ BS # ''textbf{'' @ BS # ''Huge '' @ BS # ''scshape A} '' @ [BS] @ BS # '' '' @ BS # ''vspace{4pt}\<newline>    '' @ BS # ''small \<newline>    {'' @ BS # ''textcolor{vibrantblue}'' @ BS # ''faEnvelope '' @ BS # ''hspace{0.5mm}}\<newline>    '' @ BS # ''href{mailto:'' @ BS # ''section{Skills}@a.b}{'' @ BS # ''textcolor{vibrantblue}{'' @ BS # ''textbackslash{}section'' @ BS # ''{Skills'' @ BS # ''}@a.b}}\<newline>'' @ BS # ''end{center}\<newline>'')
            @ NL # LATEX_END)"
    using absent_sections_emit_nothing [of print_3_9 injected_resume] n
    by (simp add: injected_header emit_def LATEX_PREAMBLE_nonempty LATEX_END_nonempty
        build_experience_def build_projects_def build_education_def)
  have s: "sublist (BS # ''section{Skills}'')
       (LATEX_PREAMBLE @ NL #
            (BS # ''begin{center}\<newline>    '' @ BS # ''textbf{'' @ BS # ''Huge '' @ BS # ''scshape A} '' @ [BS] @ BS # '' '' @ BS # ''vspace{4pt}\<newline>    '' @ BS # ''small \<newline>    {'' @ BS # ''textcolor{vibrantblue}'' @ BS # ''faEnvelope '' @ BS # ''hspace{0.5mm}}\<newline>    '' @ BS # ''href{mailto:'' @ BS # ''section{Skills}@a.b}{'' @ BS # ''textcolor{vibrantblue}{'' @ BS # ''textbackslash{}section'' @ BS # ''{Skills'' @ BS # ''}@a.b}}\<newline>'' @ BS # ''end{center}\<newline>'')
            @ NL # LATEX_END)"
    unfolding sublist_def
    by (intro exI [of _ "LATEX_PREAMBLE @ NL # (BS # ''begin{center}\<newline>    '' @ BS # ''textbf{'' @ BS # ''Huge '' @ BS # ''scshape A} '' @ [BS] @ BS # '' '' @ BS # ''vspace{4pt}\<newline>    '' @ BS # ''small \<newline>    {'' @ BS # ''textcolor{vibrantblue}'' @ BS # ''faEnvelope '' @ BS # ''hspace{0.5mm}}\<newline>    '' @ BS # ''href{mailto:'')"]
          exI [of _ "(''@a.b}{'' @ BS # ''textcolor{vibrantblue}{'' @ BS # ''textbackslash{}section'' @ BS # ''{Skills'' @ BS # ''}@a.b}}\<newline>'' @ BS # ''end{center}\<newline>'') @ NL # LATEX_END"]) simp
  show ?thesis using a n r s by simp
qed
















lemma sample_render_raises: "resume_to_latex print_3_9 sample_resume = Inl TypeError"
  by code_simp

lemma sample_loaded:
  "fst (from_dict remdups clock_2026 (to_dict sample_resume) 0) = Inr sample_resume"
  by code_simp

text \<open>
  Claim C10. A project with a link holds a \<open>Website\<close> object, and \<open>href\<close> receives this
  object, not its string: concatenating it to a string raises a TypeError. So no project
  with a link is rendered with its URL inserted: the project heading, the projects
  section and the whole document fail, as does the document of the repository's own
  round-trip test, built in memory or loaded from its record.
\<close>
theorem href_Website_object_raises:
  "href (UrlWebsite w) label blue = Inl TypeError
   \<and> project_left (p\<lparr>Project_link := Some w\<rparr>) = Inl TypeError
   \<and> build_projects (Some \<lparr>ProjectSection_projects = p\<lparr>Project_link := Some w\<rparr> # ps\<rparr>)
       = Inl TypeError
   \<and> Project_link (hd (ProjectSection_projects (the (Resume_projects sample_resume))))
       = Some (Website_obj ''https://example.com'')
   \<and> build_projects (Resume_projects sample_resume) = Inl TypeError
   \<and> resume_to_latex print_3_9 sample_resume = Inl TypeError
   \<and> load_json_and_generate_latex remdups clock_2026 print_3_9 (to_dict sample_resume) 0
       = Inl TypeError"
proof -
  have a: "project_left (p\<lparr>Project_link := Some w\<rparr>) = Inl TypeError"
    and b: "build_projects (Some \<lparr>ProjectSection_projects = p\<lparr>Project_link := Some w\<rparr> # ps\<rparr>)
       = Inl TypeError"
    by (simp_all add: project_left_def build_projects_def project_lines_def)
  have c: "Project_link (hd (ProjectSection_projects (the (Resume_projects sample_resume))))
       = Some (Website_obj ''https://example.com'')"
    and d: "build_projects (Resume_projects sample_resume) = Inl TypeError"
    by (simp_all add: project_left_def build_projects_def project_lines_def sample_resume_def
        Resume_init_def)
  obtain m where "from_dict remdups clock_2026 (to_dict sample_resume) 0 = (Inr sample_resume, m)"
    using sample_loaded
    by (cases "from_dict remdups clock_2026 (to_dict sample_resume) 0") simp
  then have e: "load_json_and_generate_latex remdups clock_2026 print_3_9 (to_dict sample_resume) 0
       = Inl TypeError"
    by (simp add: load_json_and_generate_latex_def sample_render_raises)
  show ?thesis
    using a b c d e by (simp add: sample_render_raises)
qed

end
